theory Spec2Isabelle
  imports Main
begin

section \<open>Python values\<close>

text \<open>
  The library is dynamically typed: the JSON documents it receives and builds, the
  optional arguments of its methods and the attributes of its objects are Python values.
  The model keeps the values JSON can carry. Floats are left out. A dict is an
  association list in insertion order, as Python's dicts are.
\<close>

datatype pyval =
    PNone
  | PBool bool
  | PInt int
  | PStr string
  | PList "pyval list"
  | PDict "(pyval \<times> pyval) list"

type_synonym pydict = "(pyval \<times> pyval) list"

text \<open>
  Python's \<open>==\<close>. \<open>True == 1\<close> and \<open>False == 0\<close> hold in Python; a string is equal
  to strings only. The definition is exact whenever one operand is \<open>None\<close>, a bool, an
  int or a str, which is how the library uses it (dict keys, and comparisons with a
  string literal).
\<close>

fun py_eq :: "pyval \<Rightarrow> pyval \<Rightarrow> bool" where
  "py_eq (PBool b) (PInt i) = (i = (if b then 1 else 0))"
| "py_eq (PInt i) (PBool b) = (i = (if b then 1 else 0))"
| "py_eq a b = (a = b)"

text \<open>Lists and dicts are unhashable: using one as a dict key raises TypeError.\<close>

fun hashable :: "pyval \<Rightarrow> bool" where
  "hashable (PList xs) = False"
| "hashable (PDict kvs) = False"
| "hashable v = True"

text \<open>
  \<open>d[k] = v\<close>: an existing key keeps its place (and the key object first inserted), a new
  key goes to the end.
\<close>

fun dict_set :: "pyval \<Rightarrow> pyval \<Rightarrow> pydict \<Rightarrow> pydict" where
  "dict_set k v [] = [(k, v)]"
| "dict_set k v ((k', v') # d) =
     (if py_eq k' k then (k', v) # d else (k', v') # dict_set k v d)"

fun dict_get :: "pydict \<Rightarrow> pyval \<Rightarrow> pyval option" where
  "dict_get [] k = None"
| "dict_get ((k', v') # d) k = (if py_eq k' k then Some v' else dict_get d k)"

section \<open>Responses, errors and the requests library\<close>

text \<open>
  A \<open>requests.Response\<close>: the integer status code, the raw body, and the body parsed as
  JSON (\<open>None\<close> when it is not JSON: \<open>response.json()\<close> raises ValueError then).
\<close>

record response =
  status_code :: int
  content :: string
  json_body :: "pyval option"

text \<open>
  The reasons \<open>PathError\<close> is raised with; the source formats each into a message.
\<close>

datatype path_reason =
    EmptyList
  | TooMany nat nat
  | NotAFile string
  | SameName string

text \<open>
  The exceptions of \<open>exceptions.py\<close>, the one of the requests library the code catches
  (\<open>HTTPError\<close>), and the built-in ones a call can end with. \<open>TransportError\<close> stands for
  what \<open>requests.get\<close>, \<open>post\<close> and \<open>delete\<close> raise themselves (no connection, timeout,
  too many redirects): exceptions of the requests library that are neither HTTPError,
  which only \<open>raise_for_status\<close> raises, nor an exception of \<open>exceptions.py\<close>.
\<close>

datatype error =
    ConfigurationError string
  | AuthenticationFailure response
  | ResourceNotFound response
  | ArchiveError pyval
  | PathError path_reason
  | DownloadError
  | HTTPError response
  | TransportError string
  | Exception string
  | KeyError pyval
  | TypeError
  | AttributeError
  | ValueError
  | OSError string

fun is_HTTPError :: "error \<Rightarrow> bool" where
  "is_HTTPError (HTTPError r) = True"
| "is_HTTPError (AuthenticationFailure r) = True"
| "is_HTTPError e = False"

text \<open>
  \<open>Response.raise_for_status\<close> of the requests library raises HTTPError for a status in
  400..599 and returns otherwise; \<open>Response.ok\<close> is defined there as "raise_for_status
  does not raise HTTPError".
\<close>

definition raise_for_status :: "response \<Rightarrow> error + unit" where
  "raise_for_status r =
     (if 400 \<le> status_code r \<and> status_code r < 600 then Inl (HTTPError r) else Inr ())"

definition ok :: "response \<Rightarrow> bool" where
  "ok r = (case raise_for_status r of
             Inl e \<Rightarrow> \<not> is_HTTPError e
           | Inr u \<Rightarrow> True)"

definition response_json :: "response \<Rightarrow> error + pyval" where
  "response_json r = (case json_body r of None \<Rightarrow> Inl ValueError | Some v \<Rightarrow> Inr v)"

section \<open>The world outside the library\<close>

text \<open>
  The HTTP requests the library issues: \<open>requests.get/delete/post(url, headers, json)\<close>
  and the multipart \<open>requests.post(url, data, files, auth)\<close> of the upload, whose files
  are the open file objects (by handle number).
\<close>

datatype request =
    HttpGet string "(string \<times> string) list" pyval
  | HttpDelete string "(string \<times> string) list" pyval
  | HttpPost string "(string \<times> string) list" pyval
  | HttpPostFiles string pyval "string list" "(string \<times> nat) list" "string \<times> string"

text \<open>
  What the code reads but does not change: the process environment, the server (its
  answer may depend on the requests it has already received; \<open>Inl\<close> is the message of
  an exception raised by the transport) and the file system.
\<close>

record environment =
  environ :: "string \<Rightarrow> string option"
  server :: "request list \<Rightarrow> request \<Rightarrow> string + response"
  isfile :: "string \<Rightarrow> bool"
  can_read :: "string \<Rightarrow> bool"
  can_write :: "string \<Rightarrow> bool"

text \<open>
  What the code changes: the requests sent so far (oldest first), the file objects
  created by \<open>open\<close> (handle \<open>n\<close> is the \<open>n\<close>-th one; \<open>True\<close> while it is open), and the
  files written.
\<close>

record world =
  sent :: "request list"
  handles :: "bool list"
  written :: "(string \<times> string) list"

definition transport :: "environment \<Rightarrow> request \<Rightarrow> world \<Rightarrow> (error + response) \<times> world" where
  "transport E rq w =
     (case server E (sent w) rq of
        Inl msg \<Rightarrow> (Inl (TransportError msg), w\<lparr>sent := sent w @ [rq]\<rparr>)
      | Inr r \<Rightarrow> (Inr r, w\<lparr>sent := sent w @ [rq]\<rparr>))"

text \<open>\<open>open(path, "rb")\<close>: a new file object, or OSError.\<close>

definition open_rb :: "environment \<Rightarrow> string \<Rightarrow> world \<Rightarrow> (error + nat) \<times> world" where
  "open_rb E path w =
     (if can_read E path
      then (Inr (length (handles w)), w\<lparr>handles := handles w @ [True]\<rparr>)
      else (Inl (OSError path), w))"

definition close_file :: "nat \<Rightarrow> world \<Rightarrow> world" where
  "close_file h w = w\<lparr>handles := (handles w)[h := False]\<rparr>"

section \<open>Standard library functions the client calls\<close>

text \<open>
  \<open>urllib.parse.quote(uri)\<close>: letters, digits and \<open>_.-~/\<close> stay, every other byte of the
  UTF-8 encoding becomes \<open>%XX\<close>. Strings are byte lists here, so the encoding is the
  identity.
\<close>

definition quote_safe :: "char \<Rightarrow> bool" where
  "quote_safe c =
     (c \<in> set ''ABCDEFGHIJKLMNOPQRSTUVWXYZabcdefghijklmnopqrstuvwxyz0123456789_.-~/'')"

definition hexdigit :: "nat \<Rightarrow> char" where
  "hexdigit n = ''0123456789ABCDEF'' ! (n mod 16)"

definition quote :: "string \<Rightarrow> string" where
  "quote s = concat (map (\<lambda>c. if quote_safe c then [c]
                              else [CHR ''%'', hexdigit (of_char c div 16), hexdigit (of_char c)]) s)"

text \<open>\<open>base64.b64encode\<close>, three bytes to four characters, padded with \<open>=\<close>.\<close>

definition b64char :: "nat \<Rightarrow> char" where
  "b64char n =
     ''ABCDEFGHIJKLMNOPQRSTUVWXYZabcdefghijklmnopqrstuvwxyz0123456789+/'' ! (n mod 64)"

fun b64encode :: "string \<Rightarrow> string" where
  "b64encode [] = []"
| "b64encode [a] =
     (let n = of_char a * 65536
      in [b64char (n div 262144), b64char (n div 4096), CHR ''='', CHR ''=''])"
| "b64encode [a, b] =
     (let n = of_char a * 65536 + of_char b * 256
      in [b64char (n div 262144), b64char (n div 4096), b64char (n div 64), CHR ''=''])"
| "b64encode (a # b # c # rest) =
     (let n = of_char a * 65536 + of_char b * 256 + of_char c
      in [b64char (n div 262144), b64char (n div 4096), b64char (n div 64), b64char n]
         @ b64encode rest)"

text \<open>\<open>os.path.basename\<close> and \<open>path.split("/")[-1]\<close>: what follows the last slash.\<close>

definition basename :: "string \<Rightarrow> string" where
  "basename p = rev (takeWhile (\<lambda>c. c \<noteq> CHR ''/'') (rev p))"

section \<open>client.py: AstrClient\<close>

record astrclient =
  email :: string
  token :: string
  url :: string
  headers :: "(string \<times> string) list"

definition get_base_url_config :: "environment \<Rightarrow> error + string" where
  "get_base_url_config E =
     (case environ E ''LIBASTR_URL'' of
        None \<Rightarrow> Inl (ConfigurationError
                  ''Cannot retrieve configuration, please set LIBASTR_URL env variable.'')
      | Some u \<Rightarrow> Inr u)"

definition get_user_config :: "environment \<Rightarrow> error + string \<times> string" where
  "get_user_config E =
     (case environ E ''LIBASTR_EMAIL'' of
        None \<Rightarrow> Inl (ConfigurationError
                  ''Cannot retrieve configuration, please set LIBASTR_EMAIL and LIBASTR_TOKEN env variables.'')
      | Some e \<Rightarrow>
          (case environ E ''LIBASTR_TOKEN'' of
             None \<Rightarrow> Inl (ConfigurationError
                       ''Cannot retrieve configuration, please set LIBASTR_EMAIL and LIBASTR_TOKEN env variables.'')
           | Some t \<Rightarrow> Inr (e, t)))"

text \<open>
  \<open>AstrClient.__init__(base_url=None, email=None, token=None)\<close>. An argument left out
  is \<open>None\<close>; one that is given is a string.
\<close>

definition AstrClient :: "environment \<Rightarrow> string option \<Rightarrow> string option \<Rightarrow> string option
    \<Rightarrow> error + astrclient" where
  "AstrClient E base_url email_arg token_arg =
     (case (case base_url of None \<Rightarrow> get_base_url_config E | Some u \<Rightarrow> Inr u) of
        Inl e \<Rightarrow> Inl e
      | Inr base \<Rightarrow>
          (case (case (email_arg, token_arg) of
                   (Some e, Some t) \<Rightarrow> Inr (e, t)
                 | _ \<Rightarrow> get_user_config E) of
             Inl e \<Rightarrow> Inl e
           | Inr (em, tok) \<Rightarrow>
               (let base' = (if base \<noteq> [] \<and> last base = CHR ''/'' then base
                             else base @ ''/'')
                in Inr \<lparr>email = em, token = tok, url = base' @ ''api/'',
                        headers = [(''Authorization'', ''Basic '' @ b64encode (em @ '':'' @ tok)),
                                   (''Content-Type'', ''application/json'')]\<rparr>)))"

text \<open>
  \<open>AstrClient._request(request_type, url, params)\<close>. The status code of a response is
  an int, and the source compares it with the string \<open>"401"\<close>.
\<close>

definition astr_request :: "environment \<Rightarrow> astrclient \<Rightarrow> string \<Rightarrow> string \<Rightarrow> pyval \<Rightarrow> world
    \<Rightarrow> (error + pyval) \<times> world" where
  "astr_request E c request_type u params w =
     (let sent_request =
        (if request_type = ''GET'' then Inr (HttpGet u (headers c) params)
         else if request_type = ''DELETE'' then Inr (HttpDelete u (headers c) params)
         else if request_type = ''POST'' then Inr (HttpPost u (headers c) params)
         else Inl (Exception (''request type not supported: '' @ request_type)))
      in case sent_request of
           Inl e \<Rightarrow> (Inl e, w)
         | Inr rq \<Rightarrow>
             (case transport E rq w of
                (Inl e, w') \<Rightarrow> (Inl e, w')
              | (Inr r, w') \<Rightarrow>
                  (case raise_for_status r of
                     Inr u1 \<Rightarrow> (response_json r, w')
                   | Inl e \<Rightarrow>
                       if is_HTTPError e
                       then (if py_eq (PInt (status_code r)) (PStr ''401'')
                             then (Inl (AuthenticationFailure r), w')
                             else (case raise_for_status r of
                                     Inl e' \<Rightarrow> (Inl e', w')
                                   | Inr u2 \<Rightarrow> (response_json r, w')))
                       else (Inl e, w'))))"

definition send_get :: "environment \<Rightarrow> astrclient \<Rightarrow> string \<Rightarrow> pyval \<Rightarrow> world
    \<Rightarrow> (error + pyval) \<times> world" where
  "send_get E c uri params w = astr_request E c ''GET'' (url c @ quote uri) params w"

definition send_post :: "environment \<Rightarrow> astrclient \<Rightarrow> string \<Rightarrow> pyval \<Rightarrow> world
    \<Rightarrow> (error + pyval) \<times> world" where
  "send_post E c uri params w = astr_request E c ''POST'' (url c @ quote uri) params w"

definition send_delete :: "environment \<Rightarrow> astrclient \<Rightarrow> string \<Rightarrow> pyval \<Rightarrow> world
    \<Rightarrow> (error + pyval) \<times> world" where
  "send_delete E c uri params w = astr_request E c ''DELETE'' (url c @ quote uri) params w"

text \<open>
  \<open>AstrClient.download(uri, path)\<close>: a GET without headers, the same status checks with
  one more for \<open>"404"\<close>, the \<open>ok\<close> check, then the body is written to \<open>path\<close>.
\<close>

definition AstrClient_download :: "environment \<Rightarrow> astrclient \<Rightarrow> string \<Rightarrow> string \<Rightarrow> world
    \<Rightarrow> (error + unit) \<times> world" where
  "AstrClient_download E c uri path w =
     (case transport E (HttpGet (url c @ quote uri) [] PNone) w of
        (Inl e, w') \<Rightarrow> (Inl e, w')
      | (Inr r, w') \<Rightarrow>
          (let checked =
             (case raise_for_status r of
                Inr u1 \<Rightarrow> Inr ()
              | Inl e \<Rightarrow>
                  if is_HTTPError e
                  then (if py_eq (PInt (status_code r)) (PStr ''401'')
                        then Inl (AuthenticationFailure r)
                        else if py_eq (PInt (status_code r)) (PStr ''404'')
                        then Inl (ResourceNotFound r)
                        else raise_for_status r)
                  else Inl e)
           in case checked of
                Inl e \<Rightarrow> (Inl e, w')
              | Inr u2 \<Rightarrow>
                  if \<not> ok r then (Inl DownloadError, w')
                  else if can_write E path
                  then (Inr (), w'\<lparr>written := written w' @ [(path, content r)]\<rparr>)
                  else (Inl (OSError path), w')))"

text \<open>
  \<open>AstrClient.upload(uri, paths, zip_name)\<close>. The loop of the \<open>try\<close> block opens the
  files one by one; an \<open>open\<close> that raises leaves the loop with the files opened so far.
\<close>

fun open_all :: "environment \<Rightarrow> string list \<Rightarrow> (string \<times> nat) list \<Rightarrow> string list \<Rightarrow> world
    \<Rightarrow> (error option \<times> (string \<times> nat) list \<times> string list) \<times> world" where
  "open_all E [] files filenames w = ((None, files, filenames), w)"
| "open_all E (path # paths) files filenames w =
     (case open_rb E path w of
        (Inl e, w') \<Rightarrow> ((Some e, files, filenames), w')
      | (Inr h, w') \<Rightarrow>
          open_all E paths (files @ [(''files'', h)]) (filenames @ [basename path]) w')"

text \<open>The \<open>finally\<close> block: \<open>for f in files: f[1].close()\<close>.\<close>

fun close_all :: "(string \<times> nat) list \<Rightarrow> world \<Rightarrow> world" where
  "close_all [] w = w"
| "close_all (f # fs) w = close_all fs (close_file (snd f) w)"

definition AstrClient_upload :: "environment \<Rightarrow> astrclient \<Rightarrow> string \<Rightarrow> string list \<Rightarrow> pyval
    \<Rightarrow> world \<Rightarrow> (error + string) \<times> world" where
  "AstrClient_upload E c uri paths zip_name w =
     (case open_all E paths [] [] w of
        ((Some e, files, filenames), w1) \<Rightarrow> (Inl e, close_all files w1)
      | ((None, files, filenames), w1) \<Rightarrow>
          (case transport E (HttpPostFiles (url c @ quote uri) zip_name filenames files
                              (email c, token c)) w1 of
             (Inl e, w2) \<Rightarrow> (Inl e, close_all files w2)
           | (Inr r, w2) \<Rightarrow>
               (let checked =
                  (case raise_for_status r of
                     Inr u1 \<Rightarrow> Inr ()
                   | Inl e \<Rightarrow>
                       if is_HTTPError e
                       then (if py_eq (PInt (status_code r)) (PStr ''401'')
                             then Inl (AuthenticationFailure r)
                             else raise_for_status r)
                       else Inl e)
                in case checked of
                     Inl e \<Rightarrow> (Inl e, close_all files w2)
                   | Inr u2 \<Rightarrow> (Inr (content r), close_all files w2))))"

text \<open>Subscripting with a string literal, \<open>v["key"]\<close>: only a dict accepts it.\<close>

fun getitem :: "pyval \<Rightarrow> string \<Rightarrow> error + pyval" where
  "getitem (PDict d) k =
     (case dict_get d (PStr k) of None \<Rightarrow> Inl (KeyError (PStr k)) | Some v \<Rightarrow> Inr v)"
| "getitem v k = Inl TypeError"

text \<open>Python's \<open>+\<close> on the values of the model.\<close>

fun py_add :: "pyval \<Rightarrow> pyval \<Rightarrow> error + pyval" where
  "py_add (PStr a) (PStr b) = Inr (PStr (a @ b))"
| "py_add (PList a) (PList b) = Inr (PList (a @ b))"
| "py_add (PInt a) (PInt b) = Inr (PInt (a + b))"
| "py_add (PInt a) (PBool b) = Inr (PInt (a + (if b then 1 else 0)))"
| "py_add (PBool a) (PInt b) = Inr (PInt ((if a then 1 else 0) + b))"
| "py_add (PBool a) (PBool b) = Inr (PInt ((if a then 1 else 0) + (if b then 1 else 0)))"
| "py_add a b = Inl TypeError"

text \<open>\<open>"literal" + v\<close>, used to build a uri: a string when \<open>v\<close> is one, TypeError otherwise.\<close>

definition str_plus :: "string \<Rightarrow> pyval \<Rightarrow> error + string" where
  "str_plus s v = (case py_add (PStr s) v of
                     Inr (PStr r) \<Rightarrow> Inr r
                   | Inr other \<Rightarrow> Inl TypeError
                   | Inl e \<Rightarrow> Inl e)"

definition get_username :: "environment \<Rightarrow> astrclient \<Rightarrow> world \<Rightarrow> (error + pyval) \<times> world" where
  "get_username E c w =
     (case send_get E c (''user/email/'' @ email c) PNone w of
        (Inl e, w') \<Rightarrow> (Inl e, w')
      | (Inr user, w') \<Rightarrow>
          if user \<noteq> PNone
          then (case getitem user ''firstname'' of
                  Inl e \<Rightarrow> (Inl e, w')
                | Inr first \<Rightarrow>
                    (case py_add first (PStr '' '') of
                       Inl e \<Rightarrow> (Inl e, w')
                     | Inr s \<Rightarrow>
                         (case getitem user ''lastname'' of
                            Inl e \<Rightarrow> (Inl e, w')
                          | Inr lastn \<Rightarrow> (py_add s lastn, w'))))
          else (Inr (PStr ''Error: user not found''), w'))"

section \<open>resources.py: Archive\<close>

text \<open>
  An Archive object: its public attributes, the client it talks through, and
  \<open>_astr_items\<close>, the dict built once by \<open>__init__\<close> from the attribute values of that
  moment.
\<close>

record archive =
  id' :: pyval \<comment> \<open>the attribute \<open>id_\<close>\<close>
  date :: pyval
  category :: pyval
  author :: pyval
  comments :: pyval
  descriptors :: pyval
  client :: astrclient
  astr_items :: pydict

text \<open>
  \<open>Archive.__init__(date, category, descriptors, author=None, comments=None, id_=None,
  astrclient=None)\<close>. Without a client, one is built from the environment, which can
  raise ConfigurationError.
\<close>

definition Archive :: "environment \<Rightarrow> pyval \<Rightarrow> pyval \<Rightarrow> pyval \<Rightarrow> pyval \<Rightarrow> pyval \<Rightarrow> pyval
    \<Rightarrow> astrclient option \<Rightarrow> error + archive" where
  "Archive E date0 category0 descriptors0 author0 comments0 id0 astrclient0 =
     (case (case astrclient0 of Some c \<Rightarrow> Inr c | None \<Rightarrow> AstrClient E None None None) of
        Inl e \<Rightarrow> Inl e
      | Inr c \<Rightarrow>
          Inr \<lparr>id' = id0, date = date0, category = category0, author = author0,
               comments = comments0, descriptors = descriptors0, client = c,
               astr_items = [(PStr ''id_'', id0), (PStr ''date'', date0),
                             (PStr ''category'', category0), (PStr ''author'', author0),
                             (PStr ''comments'', comments0),
                             (PStr ''descriptors'', descriptors0)]\<rparr>)"

text \<open>\<open>d.items()\<close>: the pairs of a dict; anything else has no such method.\<close>

definition items :: "pyval \<Rightarrow> error + (pyval \<times> pyval) list" where
  "items v = (case v of PDict kvs \<Rightarrow> Inr kvs | _ \<Rightarrow> Inl AttributeError)"

definition name_value :: "pyval \<times> pyval \<Rightarrow> pyval" where
  "name_value kv = PDict [(PStr ''name'', fst kv), (PStr ''value'', snd kv)]"

text \<open>
  \<open>Archive._object_to_dict\<close>. \<open>data = self._astr_items\<close> binds the same dict object, so
  the assignment to \<open>data["descriptors"]\<close> changes \<open>_astr_items\<close>: the model returns the
  dict and the archive holding it.
\<close>

definition object_to_dict :: "archive \<Rightarrow> error + pydict \<times> archive" where
  "object_to_dict a =
     (case items (descriptors a) of
        Inl e \<Rightarrow> Inl e
      | Inr kvs \<Rightarrow>
          (let data = dict_set (PStr ''descriptors'') (PList (map name_value kvs)) (astr_items a)
           in Inr (data, a\<lparr>astr_items := data\<rparr>)))"

text \<open>\<open>Archive.delete\<close>.\<close>

definition delete :: "environment \<Rightarrow> archive \<Rightarrow> world \<Rightarrow> (error + unit) \<times> archive \<times> world" where
  "delete E a w =
     (case str_plus ''archives/id/'' (id' a) of
        Inl e \<Rightarrow> (Inl e, a, w)
      | Inr uri \<Rightarrow>
          (case send_delete E (client a) uri PNone w of
             (Inl e, w') \<Rightarrow> (Inl e, a, w')
           | (Inr res, w') \<Rightarrow> (Inr (), a, w')))"

text \<open>
  \<open>Archive.update(date=None, comments=None, descriptors=None)\<close>: the body of the
  request, then the request.
\<close>

definition update_body :: "pyval \<Rightarrow> pyval \<Rightarrow> pyval \<Rightarrow> error + pydict" where
  "update_body date1 comments1 descriptors1 =
     (let b0 = [];
          b1 = (if date1 \<noteq> PNone then dict_set (PStr ''date'') date1 b0 else b0);
          b2 = (if comments1 \<noteq> PNone then dict_set (PStr ''comments'') comments1 b1 else b1)
      in if descriptors1 \<noteq> PNone
         then (case items descriptors1 of
                 Inl e \<Rightarrow> Inl e
               | Inr kvs \<Rightarrow> Inr (dict_set (PStr ''descriptors'') (PList (map name_value kvs)) b2))
         else Inr b2)"

definition update :: "environment \<Rightarrow> archive \<Rightarrow> pyval \<Rightarrow> pyval \<Rightarrow> pyval \<Rightarrow> world
    \<Rightarrow> (error + unit) \<times> archive \<times> world" where
  "update E a date1 comments1 descriptors1 w =
     (case update_body date1 comments1 descriptors1 of
        Inl e \<Rightarrow> (Inl e, a, w)
      | Inr body_request \<Rightarrow>
          (case str_plus ''archives/id/'' (id' a) of
             Inl e \<Rightarrow> (Inl e, a, w)
           | Inr uri \<Rightarrow>
               (case send_post E (client a) uri (PDict body_request) w of
                  (Inl e, w') \<Rightarrow> (Inl e, a, w')
                | (Inr res, w') \<Rightarrow> (Inr (), a, w'))))"

text \<open>
  The checks both \<open>upload\<close> and \<open>replace_zip\<close> start with. The loop keeps the base names
  seen so far.
\<close>

definition MAX_FILE_NUMBER :: nat where
  "MAX_FILE_NUMBER = 50"

fun check_paths :: "environment \<Rightarrow> string list \<Rightarrow> string list \<Rightarrow> error + string list" where
  "check_paths E [] filenames = Inr filenames"
| "check_paths E (path # paths) filenames =
     (if \<not> isfile E path then Inl (PathError (NotAFile path))
      else if basename path \<in> set filenames then Inl (PathError (SameName (basename path)))
      else check_paths E paths (filenames @ [basename path]))"

definition validate_paths :: "environment \<Rightarrow> string list \<Rightarrow> error + string list" where
  "validate_paths E file_paths =
     (if length file_paths = 0 then Inl (PathError EmptyList)
      else if length file_paths > MAX_FILE_NUMBER
      then Inl (PathError (TooMany (length file_paths) MAX_FILE_NUMBER))
      else check_paths E file_paths [])"

text \<open>
  \<open>Archive.upload(file_paths)\<close>. \<open>data\<close> is \<open>_astr_items\<close> itself, so storing the author
  in \<open>data\<close> stores it in \<open>_astr_items\<close>. The id is assigned after the call of the
  client's upload has returned.
\<close>

definition upload :: "environment \<Rightarrow> archive \<Rightarrow> string list \<Rightarrow> world
    \<Rightarrow> (error + unit) \<times> archive \<times> world" where
  "upload E a file_paths w =
     (case validate_paths E file_paths of
        Inl e \<Rightarrow> (Inl e, a, w)
      | Inr filenames \<Rightarrow>
          (case object_to_dict a of
             Inl e \<Rightarrow> (Inl e, a, w)
           | Inr (data, a1) \<Rightarrow>
               (case get_username E (client a1) w of
                  (Inl e, w1) \<Rightarrow> (Inl e, a1, w1)
                | (Inr username, w1) \<Rightarrow>
                    (let data' = dict_set (PStr ''author'') username data;
                         a2 = a1\<lparr>astr_items := data'\<rparr>
                     in case send_post E (client a2) ''archives/add'' (PDict data') w1 of
                          (Inl e, w2) \<Rightarrow> (Inl e, a2, w2)
                        | (Inr res, w2) \<Rightarrow>
                            (case getitem res ''name'' of
                               Inl e \<Rightarrow> (Inl e, a2, w2)
                             | Inr nm \<Rightarrow>
                                 if py_eq nm (PStr ''Failed'') then (Inl (ArchiveError res), a2, w2)
                                 else (case getitem res ''archive'' of
                                         Inl e \<Rightarrow> (Inl e, a2, w2)
                                       | Inr arch \<Rightarrow>
                                           (case getitem arch ''_id'' of
                                              Inl e \<Rightarrow> (Inl e, a2, w2)
                                            | Inr archive_id \<Rightarrow>
                                                (case AstrClient_upload E (client a2) ''upload''
                                                        file_paths archive_id w2 of
                                                   (Inl e, w3) \<Rightarrow> (Inl e, a2, w3)
                                                 | (Inr txt, w3) \<Rightarrow>
                                                     (Inr (), a2\<lparr>id' := archive_id\<rparr>, w3)))))))))"

text \<open>\<open>Archive.replace_zip(file_paths)\<close>.\<close>

definition replace_zip :: "environment \<Rightarrow> archive \<Rightarrow> string list \<Rightarrow> world
    \<Rightarrow> (error + unit) \<times> archive \<times> world" where
  "replace_zip E a file_paths w =
     (case validate_paths E file_paths of
        Inl e \<Rightarrow> (Inl e, a, w)
      | Inr filenames \<Rightarrow>
          (case str_plus ''archives/id/'' (id' a) of
             Inl e \<Rightarrow> (Inl e, a, w)
           | Inr uri \<Rightarrow>
               (case send_post E (client a) uri (PDict [(PStr ''newArchive'', PStr ''true'')]) w of
                  (Inl e, w1) \<Rightarrow> (Inl e, a, w1)
                | (Inr res, w1) \<Rightarrow>
                    (case AstrClient_upload E (client a) ''upload/replace-zip'' file_paths
                            (id' a) w1 of
                       (Inl e, w2) \<Rightarrow> (Inl e, a, w2)
                     | (Inr txt, w2) \<Rightarrow> (Inr (), a, w2)))))"

section \<open>resources.py: Browser\<close>

record browser =
  browser_client :: astrclient

definition Browser :: "environment \<Rightarrow> astrclient option \<Rightarrow> error + browser" where
  "Browser E astrclient0 =
     (case (case astrclient0 of Some c \<Rightarrow> Inr c | None \<Rightarrow> AstrClient E None None None) of
        Inl e \<Rightarrow> Inl e
      | Inr c \<Rightarrow> Inr \<lparr>browser_client = c\<rparr>)"

text \<open>
  \<open>for x in v\<close>: the elements of a list, the keys of a dict, the characters of a string;
  nothing else the model holds is iterable.
\<close>

definition py_iter :: "pyval \<Rightarrow> error + pyval list" where
  "py_iter v = (case v of
                  PList xs \<Rightarrow> Inr xs
                | PDict kvs \<Rightarrow> Inr (map fst kvs)
                | PStr s \<Rightarrow> Inr (map (\<lambda>c. PStr [c]) s)
                | _ \<Rightarrow> Inl TypeError)"

text \<open>
  The loop of \<open>_json_to_archive\<close>: \<open>descriptors[descriptor["name"]] = descriptor["value"]\<close>.
  Python evaluates the right-hand side first, then the key, then stores.
\<close>

fun fold_descriptors :: "pyval list \<Rightarrow> pydict \<Rightarrow> error + pydict" where
  "fold_descriptors [] d = Inr d"
| "fold_descriptors (descriptor # rest) d =
     (case getitem descriptor ''value'' of
        Inl e \<Rightarrow> Inl e
      | Inr v \<Rightarrow>
          (case getitem descriptor ''name'' of
             Inl e \<Rightarrow> Inl e
           | Inr k \<Rightarrow>
               if hashable k then fold_descriptors rest (dict_set k v d) else Inl TypeError))"

text \<open>\<open>"comments" in json_object\<close>, asked of a value already subscripted by a string.\<close>

definition has_key :: "pyval \<Rightarrow> string \<Rightarrow> bool" where
  "has_key v k = (case v of PDict d \<Rightarrow> dict_get d (PStr k) \<noteq> None | _ \<Rightarrow> False)"

definition json_to_archive :: "environment \<Rightarrow> browser \<Rightarrow> pyval \<Rightarrow> error + archive" where
  "json_to_archive E b json_object =
     (case getitem json_object ''descriptors'' of
        Inl e \<Rightarrow> Inl e
      | Inr ds \<Rightarrow>
     (case py_iter ds of
        Inl e \<Rightarrow> Inl e
      | Inr dl \<Rightarrow>
     (case fold_descriptors dl [] of
        Inl e \<Rightarrow> Inl e
      | Inr descriptors0 \<Rightarrow>
     (case getitem json_object ''_id'' of
        Inl e \<Rightarrow> Inl e
      | Inr id0 \<Rightarrow>
     (case getitem json_object ''author'' of
        Inl e \<Rightarrow> Inl e
      | Inr author0 \<Rightarrow>
     (case getitem json_object ''date'' of
        Inl e \<Rightarrow> Inl e
      | Inr date0 \<Rightarrow>
     (case getitem json_object ''category'' of
        Inl e \<Rightarrow> Inl e
      | Inr category0 \<Rightarrow>
          if has_key json_object ''comments''
          then (case getitem json_object ''comments'' of
                  Inl e \<Rightarrow> Inl e
                | Inr comments0 \<Rightarrow>
                    Archive E date0 category0 (PDict descriptors0) author0 comments0 id0
                      (Some (browser_client b)))
          else Archive E date0 category0 (PDict descriptors0) author0 PNone id0
                 (Some (browser_client b)))))))))"

fun json_to_list_of_archives_loop :: "environment \<Rightarrow> browser \<Rightarrow> pyval list \<Rightarrow> archive list
    \<Rightarrow> error + archive list" where
  "json_to_list_of_archives_loop E b [] archives_list = Inr archives_list"
| "json_to_list_of_archives_loop E b (json_archive # rest) archives_list =
     (case json_to_archive E b json_archive of
        Inl e \<Rightarrow> Inl e
      | Inr a \<Rightarrow> json_to_list_of_archives_loop E b rest (archives_list @ [a]))"

definition json_to_list_of_archives :: "environment \<Rightarrow> browser \<Rightarrow> pyval \<Rightarrow> error + archive list" where
  "json_to_list_of_archives E b json_list =
     (case py_iter json_list of
        Inl e \<Rightarrow> Inl e
      | Inr xs \<Rightarrow> json_to_list_of_archives_loop E b xs [])"

definition get_archives_by_mongodb_query :: "environment \<Rightarrow> browser \<Rightarrow> pyval \<Rightarrow> world
    \<Rightarrow> (error + archive list) \<times> world" where
  "get_archives_by_mongodb_query E b query w =
     (case send_post E (browser_client b) ''archives'' query w of
        (Inl e, w') \<Rightarrow> (Inl e, w')
      | (Inr json_list, w') \<Rightarrow> (json_to_list_of_archives E b json_list, w'))"

text \<open>
  \<open>Browser.get_archives_by_args(author=None, date=None, category=None,
  descriptors=None)\<close>: the query document, then the raw query.
\<close>

definition elem_match :: "pyval \<times> pyval \<Rightarrow> pyval" where
  "elem_match kv =
     PDict [(PStr ''descriptors'',
             PDict [(PStr ''$elemMatch'',
                     PDict [(PStr ''name'', fst kv), (PStr ''value'', snd kv)])])]"

definition args_query :: "pyval \<Rightarrow> pyval \<Rightarrow> pyval \<Rightarrow> pyval \<Rightarrow> error + pydict" where
  "args_query author1 date1 category1 descriptors1 =
     (let q0 = [];
          q1 = (if author1 \<noteq> PNone then dict_set (PStr ''author'') author1 q0 else q0);
          q2 = (if date1 \<noteq> PNone then dict_set (PStr ''date'') date1 q1 else q1);
          q3 = (if category1 \<noteq> PNone then dict_set (PStr ''category'') category1 q2 else q2)
      in if descriptors1 \<noteq> PNone
         then (case items descriptors1 of
                 Inl e \<Rightarrow> Inl e
               | Inr kvs \<Rightarrow> Inr (dict_set (PStr ''$and'') (PList (map elem_match kvs)) q3))
         else Inr q3)"

definition get_archives_by_args :: "environment \<Rightarrow> browser \<Rightarrow> pyval \<Rightarrow> pyval \<Rightarrow> pyval \<Rightarrow> pyval
    \<Rightarrow> world \<Rightarrow> (error + archive list) \<times> world" where
  "get_archives_by_args E b author1 date1 category1 descriptors1 w =
     (case args_query author1 date1 category1 descriptors1 of
        Inl e \<Rightarrow> (Inl e, w)
      | Inr query \<Rightarrow> get_archives_by_mongodb_query E b (PDict query) w)"

section \<open>Histories of an archive\<close>

text \<open>
  What can happen to an Archive object after its construction: a caller assigns to one
  of its public attributes, or calls one of its methods (\<open>download\<close>, which assigns to no
  attribute and does not touch \<open>_astr_items\<close>, is left out). A method that raises leaves
  the object as the exception found it.
\<close>

datatype attribute = Attr_id | Attr_date | Attr_category | Attr_author | Attr_comments
  | Attr_descriptors

datatype operation =
    Assign attribute pyval
  | Call_object_to_dict
  | Call_update pyval pyval pyval
  | Call_upload "string list"
  | Call_replace_zip "string list"
  | Call_delete

fun assign :: "attribute \<Rightarrow> pyval \<Rightarrow> archive \<Rightarrow> archive" where
  "assign Attr_id v a = a\<lparr>id' := v\<rparr>"
| "assign Attr_date v a = a\<lparr>date := v\<rparr>"
| "assign Attr_category v a = a\<lparr>category := v\<rparr>"
| "assign Attr_author v a = a\<lparr>author := v\<rparr>"
| "assign Attr_comments v a = a\<lparr>comments := v\<rparr>"
| "assign Attr_descriptors v a = a\<lparr>descriptors := v\<rparr>"

fun perform :: "environment \<Rightarrow> operation \<Rightarrow> archive \<times> world \<Rightarrow> archive \<times> world" where
  "perform E (Assign attr v) (a, w) = (assign attr v a, w)"
| "perform E Call_object_to_dict (a, w) =
     (case object_to_dict a of Inl e \<Rightarrow> (a, w) | Inr (data, a') \<Rightarrow> (a', w))"
| "perform E (Call_update date1 comments1 descriptors1) (a, w) =
     snd (update E a date1 comments1 descriptors1 w)"
| "perform E (Call_upload file_paths) (a, w) = snd (upload E a file_paths w)"
| "perform E (Call_replace_zip file_paths) (a, w) = snd (replace_zip E a file_paths w)"
| "perform E Call_delete (a, w) = snd (delete E a w)"

fun is_upload :: "operation \<Rightarrow> bool" where
  "is_upload (Call_upload file_paths) = True"
| "is_upload other = False"

section \<open>Concrete inputs\<close>

text \<open>
  A client, servers, environments, a world and an archive to run the operations on.
  \<open>example_server\<close> answers the user lookup and the creation request with success and
  the multipart upload with the status given; \<open>status_server\<close> answers every request
  with the status given.
\<close>

definition example_client :: astrclient where
  "example_client =
     \<lparr>email = ''e@x'', token = ''t'', url = ''http://h/api/'',
      headers = [(''Authorization'', ''Basic ZUB4OnQ=''), (''Content-Type'', ''application/json'')]\<rparr>"

definition example_server :: "int \<Rightarrow> request list \<Rightarrow> request \<Rightarrow> string + response" where
  "example_server upload_status log rq =
     (case rq of
        HttpGet u h p \<Rightarrow>
          Inr \<lparr>status_code = 200, content = [],
               json_body = Some (PDict [(PStr ''firstname'', PStr ''John''),
                                        (PStr ''lastname'', PStr ''DOE'')])\<rparr>
      | HttpDelete u h p \<Rightarrow> Inr \<lparr>status_code = 200, content = [], json_body = Some PNone\<rparr>
      | HttpPost u h p \<Rightarrow>
          Inr \<lparr>status_code = 200, content = [],
               json_body = Some (PDict [(PStr ''name'', PStr ''Success''),
                                        (PStr ''archive'', PDict [(PStr ''_id'', PStr ''5b29'')])])\<rparr>
      | HttpPostFiles u z names fs auth \<Rightarrow>
          Inr \<lparr>status_code = upload_status, content = ''done'', json_body = None\<rparr>)"

definition status_server :: "int \<Rightarrow> request list \<Rightarrow> request \<Rightarrow> string + response" where
  "status_server n log rq = Inr \<lparr>status_code = n, content = ''body'', json_body = Some PNone\<rparr>"

definition example_environ :: "string \<Rightarrow> string option" where
  "example_environ = [''LIBASTR_URL'' \<mapsto> ''http://h'', ''LIBASTR_EMAIL'' \<mapsto> ''e@x'',
                      ''LIBASTR_TOKEN'' \<mapsto> ''t'']"

definition example_env :: "(request list \<Rightarrow> request \<Rightarrow> string + response) \<Rightarrow> environment" where
  "example_env srv =
     \<lparr>environ = example_environ, server = srv, isfile = (\<lambda>p. True),
      can_read = (\<lambda>p. True), can_write = (\<lambda>p. True)\<rparr>"

definition empty_world :: world where
  "empty_world = \<lparr>sent = [], handles = [], written = []\<rparr>"

text \<open>
  \<open>Archive("2018-05-30", "MY_CAT", {"robot_type": "NAO"}, astrclient=example_client)\<close>,
  an archive created from scratch.
\<close>

definition example_archive :: archive where
  "example_archive =
     \<lparr>id' = PNone, date = PStr ''2018-05-30'', category = PStr ''MY_CAT'', author = PNone,
      comments = PNone, descriptors = PDict [(PStr ''robot_type'', PStr ''NAO'')],
      client = example_client,
      astr_items = [(PStr ''id_'', PNone), (PStr ''date'', PStr ''2018-05-30''),
                    (PStr ''category'', PStr ''MY_CAT''), (PStr ''author'', PNone),
                    (PStr ''comments'', PNone),
                    (PStr ''descriptors'', PDict [(PStr ''robot_type'', PStr ''NAO'')])]\<rparr>"

section \<open>The status checks of the client\<close>

text \<open>
  An int is never equal to a string in Python, so the comparisons of the status code
  with \<open>"401"\<close> and \<open>"404"\<close> are false for every response.
\<close>

lemma py_eq_int_str: "py_eq (PInt n) (PStr s) = False"
  by simp

lemma raise_for_status_cases:
  "raise_for_status r = Inl (HTTPError r) \<or> raise_for_status r = Inr ()"
  by (simp add: raise_for_status_def)

lemma astr_request_no_AuthenticationFailure:
  "fst (astr_request E c request_type u params w) \<noteq> Inl (AuthenticationFailure r)"
  by (auto simp: astr_request_def transport_def raise_for_status_def response_json_def Let_def
           split: sum.splits prod.splits if_splits option.splits)

lemma download_no_ResourceNotFound:
  "fst (AstrClient_download E c uri path w) \<noteq> Inl (ResourceNotFound r)"
  by (auto simp: AstrClient_download_def transport_def raise_for_status_def Let_def
           split: sum.splits prod.splits if_splits)

text \<open>
  C1. The claim: a GET through \<open>_request\<close> answered with status 401 raises
  AuthenticationFailure, and a download answered with status 404 raises
  ResourceNotFound. What the code does: with status 401 the GET raises the generic
  HTTPError of \<open>raise_for_status\<close>, and with status 404 the download raises the same
  generic HTTPError, because the status code is compared with a string.
\<close>

theorem status_401_404_raise_HTTPError:
  "(server E (sent w) (HttpGet u (headers c) params) = Inr r \<and> status_code r = 401
      \<longrightarrow> fst (astr_request E c ''GET'' u params w) = Inl (HTTPError r))
   \<and> (server E (sent w) (HttpGet (url c @ quote uri) [] PNone) = Inr r' \<and> status_code r' = 404
      \<longrightarrow> fst (AstrClient_download E c uri path w) = Inl (HTTPError r'))"
  by (simp add: astr_request_def AstrClient_download_def transport_def raise_for_status_def)

theorem status_401_404_witness:
  "fst (astr_request (example_env (status_server 401)) example_client ''GET''
          ''http://h/api/archives'' PNone empty_world)
     = Inl (HTTPError \<lparr>status_code = 401, content = ''body'', json_body = Some PNone\<rparr>)
   \<and> fst (AstrClient_download (example_env (status_server 404)) example_client
            ''download/id/5b29'' ''/tmp/5b29.zip'' empty_world)
     = Inl (HTTPError \<lparr>status_code = 404, content = ''body'', json_body = Some PNone\<rparr>)"
proof -
  have a: "server (example_env (status_server 401)) (sent empty_world)
             (HttpGet ''http://h/api/archives'' (headers example_client) PNone)
           = Inr \<lparr>status_code = 401, content = ''body'', json_body = Some PNone\<rparr>"
    by (simp add: example_env_def status_server_def)
  have b: "server (example_env (status_server 404)) (sent empty_world)
             (HttpGet (url example_client @ quote ''download/id/5b29'') [] PNone)
           = Inr \<lparr>status_code = 404, content = ''body'', json_body = Some PNone\<rparr>"
    by (simp add: example_env_def status_server_def)
  from a status_401_404_raise_HTTPError
         [where E = "example_env (status_server 401)" and w = empty_world
            and u = "''http://h/api/archives''" and c = example_client and params = PNone
            and r = "\<lparr>status_code = 401, content = ''body'', json_body = Some PNone\<rparr>"]
  have "fst (astr_request (example_env (status_server 401)) example_client ''GET''
               ''http://h/api/archives'' PNone empty_world)
     = Inl (HTTPError \<lparr>status_code = 401, content = ''body'', json_body = Some PNone\<rparr>)"
    by simp
  moreover from b status_401_404_raise_HTTPError
         [where E = "example_env (status_server 404)" and w = empty_world and c = example_client
            and uri = "''download/id/5b29''" and path = "''/tmp/5b29.zip''"
            and r' = "\<lparr>status_code = 404, content = ''body'', json_body = Some PNone\<rparr>"]
  have "fst (AstrClient_download (example_env (status_server 404)) example_client
            ''download/id/5b29'' ''/tmp/5b29.zip'' empty_world)
     = Inl (HTTPError \<lparr>status_code = 404, content = ''body'', json_body = Some PNone\<rparr>)"
    by simp
  ultimately show ?thesis by simp
qed

text \<open>
  A response for which \<open>raise_for_status\<close> returns is \<open>ok\<close>.
\<close>

lemma raise_for_status_passed_ok: "raise_for_status r = Inr () \<Longrightarrow> ok r"
  by (simp add: ok_def)

text \<open>
  C9. \<open>AstrClient.download\<close> never raises DownloadError: the \<open>ok\<close> check is reached only
  when \<open>raise_for_status\<close> has returned, and \<open>ok\<close> is true of every such response.
\<close>

theorem download_never_DownloadError:
  "fst (AstrClient_download E c uri path w) \<noteq> Inl DownloadError"
  by (auto simp: AstrClient_download_def transport_def raise_for_status_def ok_def Let_def
           split: sum.splits prod.splits if_splits)

section \<open>Credentials\<close>

text \<open>
  What \<open>AstrClient.__init__\<close> computes, case by case: the base url is the argument or
  \<open>LIBASTR_URL\<close>; email and token are the two arguments when both are given, and
  \<open>LIBASTR_EMAIL\<close> with \<open>LIBASTR_TOKEN\<close> otherwise.
\<close>

lemma AstrClient_result:
  "AstrClient E base_url email_arg token_arg =
     (case (case base_url of None \<Rightarrow> environ E ''LIBASTR_URL'' | Some u \<Rightarrow> Some u) of
        None \<Rightarrow> Inl (ConfigurationError
                  ''Cannot retrieve configuration, please set LIBASTR_URL env variable.'')
      | Some u \<Rightarrow>
          (case (if email_arg \<noteq> None \<and> token_arg \<noteq> None then Some (the email_arg, the token_arg)
                 else (case (environ E ''LIBASTR_EMAIL'', environ E ''LIBASTR_TOKEN'') of
                         (Some e, Some t) \<Rightarrow> Some (e, t) | _ \<Rightarrow> None)) of
             None \<Rightarrow> Inl (ConfigurationError
                  ''Cannot retrieve configuration, please set LIBASTR_EMAIL and LIBASTR_TOKEN env variables.'')
           | Some (em, tok) \<Rightarrow>
               Inr \<lparr>email = em, token = tok,
                    url = (if u \<noteq> [] \<and> last u = CHR ''/'' then u else u @ ''/'') @ ''api/'',
                    headers = [(''Authorization'', ''Basic '' @ b64encode (em @ '':'' @ tok)),
                               (''Content-Type'', ''application/json'')]\<rparr>))"
  by (cases base_url; cases email_arg; cases token_arg; cases "environ E ''LIBASTR_URL''";
      cases "environ E ''LIBASTR_EMAIL''"; cases "environ E ''LIBASTR_TOKEN''")
     (simp_all add: AstrClient_def get_base_url_config_def get_user_config_def Let_def)

lemma AstrClient_explicit_url:
  "base_url = Some u \<Longrightarrow> AstrClient E base_url email_arg token_arg = Inr c
     \<Longrightarrow> url c = (if u \<noteq> [] \<and> last u = CHR ''/'' then u else u @ ''/'') @ ''api/''"
  by (auto simp: AstrClient_result split: option.splits if_splits)

lemma AstrClient_environ_url:
  "base_url = None \<Longrightarrow> AstrClient E base_url email_arg token_arg = Inr c
     \<Longrightarrow> \<exists>u. environ E ''LIBASTR_URL'' = Some u
           \<and> url c = (if u \<noteq> [] \<and> last u = CHR ''/'' then u else u @ ''/'') @ ''api/''"
  by (cases "environ E ''LIBASTR_URL''"; cases email_arg; cases token_arg;
      cases "environ E ''LIBASTR_EMAIL''"; cases "environ E ''LIBASTR_TOKEN''")
     (simp_all add: AstrClient_result, auto)

lemma AstrClient_explicit_user:
  "email_arg = Some e \<Longrightarrow> token_arg = Some t
     \<Longrightarrow> AstrClient E base_url email_arg token_arg = Inr c \<Longrightarrow> email c = e \<and> token c = t"
  by (auto simp: AstrClient_result split: option.splits)

lemma AstrClient_environ_user:
  "email_arg = None \<or> token_arg = None
     \<Longrightarrow> AstrClient E base_url email_arg token_arg = Inr c
     \<Longrightarrow> environ E ''LIBASTR_EMAIL'' = Some (email c) \<and> environ E ''LIBASTR_TOKEN'' = Some (token c)"
  by (cases base_url; cases "environ E ''LIBASTR_URL''"; cases email_arg; cases token_arg;
      cases "environ E ''LIBASTR_EMAIL''"; cases "environ E ''LIBASTR_TOKEN''")
     (simp_all add: AstrClient_result, auto)

lemma AstrClient_fails_iff:
  "(\<exists>msg. AstrClient E base_url email_arg token_arg = Inl (ConfigurationError msg))
     = ((base_url = None \<and> environ E ''LIBASTR_URL'' = None)
        \<or> ((email_arg = None \<or> token_arg = None)
            \<and> (environ E ''LIBASTR_EMAIL'' = None \<or> environ E ''LIBASTR_TOKEN'' = None)))"
  by (cases base_url; cases email_arg; cases token_arg; cases "environ E ''LIBASTR_URL''";
      cases "environ E ''LIBASTR_EMAIL''"; cases "environ E ''LIBASTR_TOKEN''")
     (simp_all add: AstrClient_result)

lemma AstrClient_succeeds_iff:
  "(\<exists>c. AstrClient E base_url email_arg token_arg = Inr c)
     = (\<not> (\<exists>msg. AstrClient E base_url email_arg token_arg = Inl (ConfigurationError msg)))"
  by (cases base_url; cases email_arg; cases token_arg; cases "environ E ''LIBASTR_URL''";
      cases "environ E ''LIBASTR_EMAIL''"; cases "environ E ''LIBASTR_TOKEN''")
     (simp_all add: AstrClient_result)

text \<open>
  C2, as the claim states it, fails: an email given without a token is not used. With
  the email \<open>a@b\<close> given, no token given, and an environment that holds \<open>e@x\<close> and
  \<open>t\<close>, the client is built with the email \<open>e@x\<close> of the environment.
\<close>

theorem explicit_email_ignored_without_token:
  "AstrClient (example_env (status_server 200)) (Some ''http://z'') (Some ''a@b'') None
     = Inr \<lparr>email = ''e@x'', token = ''t'', url = ''http://z/api/'',
            headers = [(''Authorization'', ''Basic ZUB4OnQ=''),
                       (''Content-Type'', ''application/json'')]\<rparr>"
  by (simp add: AstrClient_def example_env_def example_environ_def get_user_config_def b64char_def)

text \<open>
  C2, amended. The base url is the explicit argument when one is given and
  \<open>LIBASTR_URL\<close> otherwise. Email and token are resolved as a pair: the explicit
  arguments when both are given, and otherwise both from \<open>LIBASTR_EMAIL\<close> and
  \<open>LIBASTR_TOKEN\<close>. Construction raises ConfigurationError exactly when the base url is
  neither given nor in the environment, or when email or token is not given and
  \<open>LIBASTR_EMAIL\<close> or \<open>LIBASTR_TOKEN\<close> is unset; otherwise it succeeds.
\<close>

theorem AstrClient_credentials:
  "(\<forall>u c. base_url = Some u \<and> AstrClient E base_url email_arg token_arg = Inr c
       \<longrightarrow> url c = (if u \<noteq> [] \<and> last u = CHR ''/'' then u else u @ ''/'') @ ''api/'')
   \<and> (\<forall>c. base_url = None \<and> AstrClient E base_url email_arg token_arg = Inr c
       \<longrightarrow> (\<exists>u. environ E ''LIBASTR_URL'' = Some u
               \<and> url c = (if u \<noteq> [] \<and> last u = CHR ''/'' then u else u @ ''/'') @ ''api/''))
   \<and> (\<forall>e t c. email_arg = Some e \<and> token_arg = Some t
          \<and> AstrClient E base_url email_arg token_arg = Inr c
       \<longrightarrow> email c = e \<and> token c = t)
   \<and> (\<forall>c. (email_arg = None \<or> token_arg = None)
          \<and> AstrClient E base_url email_arg token_arg = Inr c
       \<longrightarrow> environ E ''LIBASTR_EMAIL'' = Some (email c)
           \<and> environ E ''LIBASTR_TOKEN'' = Some (token c))
   \<and> ((\<exists>msg. AstrClient E base_url email_arg token_arg = Inl (ConfigurationError msg))
        = ((base_url = None \<and> environ E ''LIBASTR_URL'' = None)
           \<or> ((email_arg = None \<or> token_arg = None)
               \<and> (environ E ''LIBASTR_EMAIL'' = None \<or> environ E ''LIBASTR_TOKEN'' = None))))
   \<and> ((\<exists>c. AstrClient E base_url email_arg token_arg = Inr c)
        = (\<not> (\<exists>msg. AstrClient E base_url email_arg token_arg = Inl (ConfigurationError msg))))"
proof (intro conjI allI impI)
  fix u c
  assume h: "base_url = Some u \<and> AstrClient E base_url email_arg token_arg = Inr c"
  show "url c = (if u \<noteq> [] \<and> last u = CHR ''/'' then u else u @ ''/'') @ ''api/''"
    by (rule AstrClient_explicit_url [OF conjunct1 [OF h] conjunct2 [OF h]])
next
  fix c
  assume h: "base_url = None \<and> AstrClient E base_url email_arg token_arg = Inr c"
  show "\<exists>u. environ E ''LIBASTR_URL'' = Some u
               \<and> url c = (if u \<noteq> [] \<and> last u = CHR ''/'' then u else u @ ''/'') @ ''api/''"
    by (rule AstrClient_environ_url [OF conjunct1 [OF h] conjunct2 [OF h]])
next
  fix e t c
  assume h: "email_arg = Some e \<and> token_arg = Some t
          \<and> AstrClient E base_url email_arg token_arg = Inr c"
  have r: "email c = e \<and> token c = t"
    by (rule AstrClient_explicit_user
              [OF conjunct1 [OF h] conjunct1 [OF conjunct2 [OF h]] conjunct2 [OF conjunct2 [OF h]]])
  show "email c = e" by (rule conjunct1 [OF r])
  show "token c = t" by (rule conjunct2 [OF r])
next
  fix c
  assume h: "(email_arg = None \<or> token_arg = None)
          \<and> AstrClient E base_url email_arg token_arg = Inr c"
  have r: "environ E ''LIBASTR_EMAIL'' = Some (email c)
           \<and> environ E ''LIBASTR_TOKEN'' = Some (token c)"
    by (rule AstrClient_environ_user [OF conjunct1 [OF h] conjunct2 [OF h]])
  show "environ E ''LIBASTR_EMAIL'' = Some (email c)" by (rule conjunct1 [OF r])
  show "environ E ''LIBASTR_TOKEN'' = Some (token c)" by (rule conjunct2 [OF r])
next
  show "(\<exists>msg. AstrClient E base_url email_arg token_arg = Inl (ConfigurationError msg))
        = ((base_url = None \<and> environ E ''LIBASTR_URL'' = None)
           \<or> ((email_arg = None \<or> token_arg = None)
               \<and> (environ E ''LIBASTR_EMAIL'' = None \<or> environ E ''LIBASTR_TOKEN'' = None)))"
    by (rule AstrClient_fails_iff)
next
  show "(\<exists>c. AstrClient E base_url email_arg token_arg = Inr c)
        = (\<not> (\<exists>msg. AstrClient E base_url email_arg token_arg = Inl (ConfigurationError msg)))"
    by (rule AstrClient_succeeds_iff)
qed


theorem AstrClient_credentials_witness:
  "(\<exists>c. AstrClient (example_env (status_server 200)) (Some ''http://z'') (Some ''a@b'') (Some ''q'')
           = Inr c
        \<and> url c = ''http://z/api/'' \<and> email c = ''a@b'' \<and> token c = ''q'')
   \<and> (\<exists>c. AstrClient (example_env (status_server 200)) None (Some ''a@b'') None = Inr c
        \<and> url c = ''http://h/api/''
        \<and> environ (example_env (status_server 200)) ''LIBASTR_EMAIL'' = Some (email c)
        \<and> environ (example_env (status_server 200)) ''LIBASTR_TOKEN'' = Some (token c))"
proof -
  let ?E = "example_env (status_server 200)"
  let ?c = "\<lparr>email = ''a@b'', token = ''q'', url = ''http://z/api/'',
             headers = [(''Authorization'', ''Basic YUBiOnE=''),
                        (''Content-Type'', ''application/json'')]\<rparr>"
  have r1: "AstrClient ?E (Some ''http://z'') (Some ''a@b'') (Some ''q'') = Inr ?c"
    by (simp add: AstrClient_def b64char_def)
  have r2: "AstrClient ?E None (Some ''a@b'') None = Inr example_client"
    by (simp add: AstrClient_def example_env_def example_environ_def get_base_url_config_def
                  get_user_config_def b64char_def example_client_def)
  have e: "environ ?E ''LIBASTR_URL'' = Some ''http://h''"
    by (simp add: example_env_def example_environ_def)
  note T1 = AstrClient_credentials [where E = ?E and base_url = "Some ''http://z''"
                                      and email_arg = "Some ''a@b''" and token_arg = "Some ''q''"]
  note T2 = AstrClient_credentials [where E = ?E and base_url = None
                                      and email_arg = "Some ''a@b''" and token_arg = None]
  from conjunct1 [OF T1, rule_format, of "''http://z''" ?c] r1
  have u1: "url ?c = ''http://z/api/''" by simp
  from conjunct1 [OF conjunct2 [OF conjunct2 [OF T1]], rule_format, of "''a@b''" "''q''" ?c] r1
  have u2: "email ?c = ''a@b'' \<and> token ?c = ''q''" by simp
  from conjunct1 [OF conjunct2 [OF T2], rule_format, of example_client] r2 e
  have u3: "url example_client = ''http://h/api/''" by simp
  from conjunct1 [OF conjunct2 [OF conjunct2 [OF conjunct2 [OF T2]]], rule_format, of example_client] r2
  have u4: "environ ?E ''LIBASTR_EMAIL'' = Some (email example_client)
            \<and> environ ?E ''LIBASTR_TOKEN'' = Some (token example_client)" by simp
  from r1 u1 u2 have a: "\<exists>c. AstrClient ?E (Some ''http://z'') (Some ''a@b'') (Some ''q'') = Inr c
        \<and> url c = ''http://z/api/'' \<and> email c = ''a@b'' \<and> token c = ''q''"
    by (intro exI [of _ ?c]) simp
  from r2 u3 u4 have b: "\<exists>c. AstrClient ?E None (Some ''a@b'') None = Inr c
        \<and> url c = ''http://h/api/''
        \<and> environ ?E ''LIBASTR_EMAIL'' = Some (email c)
        \<and> environ ?E ''LIBASTR_TOKEN'' = Some (token c)"
    by (intro exI [of _ example_client]) simp
  from a b show ?thesis by (rule conjI)
qed

section \<open>File handles of the client's upload\<close>

text \<open>
  The loop opens a file for every path up to the first one that cannot be opened, so
  the number of files opened is the length of the longest prefix of readable paths;
  their handles are the next that many handle numbers.
\<close>

lemma close_all_handles:
  "handles (close_all fs w) = fold (\<lambda>f hs. hs[snd f := False]) fs (handles w)"
  by (induction fs arbitrary: w) (simp_all add: close_file_def)

lemma close_all_sent: "sent (close_all fs w) = sent w"
  by (induction fs arbitrary: w) (simp_all add: close_file_def)

lemma transport_handles: "handles (snd (transport E rq w)) = handles w"
  by (simp add: transport_def split: sum.splits)

lemma open_all_world:
  "snd (open_all E paths files names w)
     = w\<lparr>handles := handles w @ replicate (length (takeWhile (can_read E) paths)) True\<rparr>"
proof (induction paths arbitrary: files names w)
  case Nil
  show ?case by simp
next
  case (Cons p ps)
  show ?case
  proof (cases "can_read E p")
    case True
    then show ?thesis
      by (simp add: open_rb_def Cons.IH replicate_append_same)
  next
    case False
    then show ?thesis by (simp add: open_rb_def)
  qed
qed

lemma upt_add_Suc: "[n ..< n + Suc k] = n # [Suc n ..< Suc n + k]"
proof -
  have e: "Suc n + k = n + Suc k" by simp
  show ?thesis unfolding e by (rule upt_conv_Cons) simp
qed

lemma open_all_files:
  "fst (snd (fst (open_all E paths files names w)))
     = files @ map (Pair ''files'')
                 [length (handles w) ..< length (handles w) + length (takeWhile (can_read E) paths)]"
proof (induction paths arbitrary: files names w)
  case Nil
  show ?case by simp
next
  case (Cons p ps)
  show ?case
  proof (cases "can_read E p")
    case True
    let ?n = "length (handles w)"
    let ?k = "length (takeWhile (can_read E) ps)"
    have u: "[?n ..< ?n + Suc ?k] = ?n # [Suc ?n ..< Suc ?n + ?k]"
      by (rule upt_add_Suc)
    from True have "fst (snd (fst (open_all E (p # ps) files names w)))
        = (files @ [(''files'', ?n)]) @ map (Pair ''files'') [Suc ?n ..< Suc ?n + ?k]"
      by (simp add: open_rb_def Cons.IH del: upt_Suc)
    also have "\<dots> = files @ map (Pair ''files'') [?n ..< ?n + Suc ?k]"
      unfolding u by simp
    finally show ?thesis using True by (simp del: upt_Suc)
  next
    case False
    then show ?thesis by (simp add: open_rb_def)
  qed
qed

lemma close_opened:
  "length xs = k \<Longrightarrow>
   fold (\<lambda>f hs. hs[snd f := False]) (map (Pair s) [length hs ..< length hs + k]) (hs @ xs)
     = hs @ replicate k False"
proof (induction k arbitrary: hs xs)
  case 0
  then show ?case by simp
next
  case (Suc k)
  then obtain x xs' where xs: "xs = x # xs'" and len: "length xs' = k"
    by (cases xs) auto
  have "[length hs ..< length hs + Suc k] = length hs # [length (hs @ [False]) ..< length (hs @ [False]) + k]"
    using upt_add_Suc [of "length hs" k] by (simp del: upt_Suc)
  moreover have "(hs @ xs)[length hs := False] = (hs @ [False]) @ xs'"
    by (simp add: xs)
  ultimately show ?case
    using Suc.IH [OF len, of "hs @ [False]"] by (simp add: replicate_append_same del: upt_Suc)
qed

text \<open>
  C8. When \<open>AstrClient.upload\<close> returns or raises, every file object it opened is closed:
  the handles in the world are those from before the call, unchanged, followed by one
  closed handle per file the call opened. This holds on every exit path of the call: an
  \<open>open\<close> that raises, a request that raises, an error status, and success.
\<close>

theorem upload_closes_every_file:
  "handles (snd (AstrClient_upload E c uri paths zip_name w))
     = handles w @ replicate (length (takeWhile (can_read E) paths)) False"
proof -
  let ?k = "length (takeWhile (can_read E) paths)"
  obtain r files names w1 where o: "open_all E paths [] [] w = ((r, files, names), w1)"
    by (metis prod.exhaust)
  from o open_all_world [of E paths "[]" "[]" w]
  have w1: "handles w1 = handles w @ replicate ?k True" by simp
  from o open_all_files [of E paths "[]" "[]" w]
  have files: "files = map (Pair ''files'') [length (handles w) ..< length (handles w) + ?k]"
    by simp
  have closed: "handles (close_all files w') = handles w @ replicate ?k False"
    if "handles w' = handles w1" for w'
    using that by (simp add: close_all_handles w1 files close_opened)
  show ?thesis
  proof (cases r)
    case (Some e)
    with o closed [of w1] show ?thesis by (simp add: AstrClient_upload_def)
  next
    case None
    let ?rq = "HttpPostFiles (url c @ quote uri) zip_name names files (email c, token c)"
    obtain res w2 where t: "transport E ?rq w1 = (res, w2)" by (metis prod.exhaust)
    with transport_handles [of E ?rq w1] have "handles w2 = handles w1" by simp
    from closed [OF this] o None t show ?thesis
      by (simp add: AstrClient_upload_def Let_def split: sum.splits)
  qed
qed

section \<open>Path validation of the archive\<close>

text \<open>
  The checks raise nothing but PathError, and they let a list through only when it is
  not empty, has at most 50 entries, names regular files only and repeats no base name.
\<close>

lemma check_paths_error:
  "check_paths E ps names = Inl e \<Longrightarrow> \<exists>reason. e = PathError reason"
  by (induction ps arbitrary: names) (auto split: if_splits)

lemma check_paths_accepts:
  "check_paths E ps names = Inr ns \<Longrightarrow>
     (\<forall>p \<in> set ps. isfile E p) \<and> distinct (map basename ps)
     \<and> basename ` set ps \<inter> set names = {}"
proof (induction ps arbitrary: names)
  case Nil
  then show ?case by simp
next
  case (Cons p ps)
  from Cons.prems have f: "isfile E p" and n: "basename p \<notin> set names"
    and r: "check_paths E ps (names @ [basename p]) = Inr ns"
    by (auto split: if_splits)
  from Cons.IH [OF r] f n show ?case by auto
qed

lemma validate_paths_error:
  "validate_paths E ps = Inl e \<Longrightarrow> \<exists>reason. e = PathError reason"
  by (auto simp: validate_paths_def dest: check_paths_error split: if_splits)

lemma validate_paths_accepts:
  "validate_paths E ps = Inr ns \<Longrightarrow>
     ps \<noteq> [] \<and> length ps \<le> 50 \<and> (\<forall>p \<in> set ps. isfile E p) \<and> distinct (map basename ps)"
  by (auto simp: validate_paths_def MAX_FILE_NUMBER_def dest: check_paths_accepts
           split: if_splits)

lemma invalid_paths_rejected:
  assumes "ps = [] \<or> length ps > 50 \<or> (\<exists>p \<in> set ps. \<not> isfile E p)
           \<or> \<not> distinct (map basename ps)"
  shows "\<exists>reason. validate_paths E ps = Inl (PathError reason)"
proof (cases "validate_paths E ps")
  case (Inl e)
  with validate_paths_error [OF Inl] show ?thesis by auto
next
  case (Inr ns)
  from validate_paths_accepts [OF Inr] assms show ?thesis by auto
qed

text \<open>
  C3. For a list of paths that is empty, longer than 50, names something that is not a
  regular file, or holds two paths with the same base name, \<open>Archive.upload\<close> and
  \<open>Archive.replace_zip\<close> raise PathError and leave the archive and the world as they were:
  no request has been sent (and no file opened).
\<close>

theorem invalid_paths_no_network_call:
  assumes "file_paths = [] \<or> length file_paths > 50
           \<or> (\<exists>p \<in> set file_paths. \<not> isfile E p)
           \<or> \<not> distinct (map basename file_paths)"
  shows "(\<exists>reason. upload E a file_paths w = (Inl (PathError reason), a, w))
         \<and> (\<exists>reason. replace_zip E a file_paths w = (Inl (PathError reason), a, w))"
proof -
  from invalid_paths_rejected [OF assms]
  obtain reason where "validate_paths E file_paths = Inl (PathError reason)" by blast
  then show ?thesis by (simp add: upload_def replace_zip_def)
qed

theorem invalid_paths_no_network_call_witness:
  "\<not> distinct (map basename [''/a/x.txt'', ''/b/x.txt''])
   \<and> (\<exists>reason. upload (example_env (status_server 200)) example_archive
                   [''/a/x.txt'', ''/b/x.txt''] empty_world
                 = (Inl (PathError reason), example_archive, empty_world))
   \<and> (\<exists>reason. replace_zip (example_env (status_server 200)) example_archive
                   [''/a/x.txt'', ''/b/x.txt''] empty_world
                 = (Inl (PathError reason), example_archive, empty_world))"
proof -
  have d: "\<not> distinct (map basename [''/a/x.txt'', ''/b/x.txt''])"
    by (simp add: basename_def)
  then have h: "[''/a/x.txt'', ''/b/x.txt''] = [] \<or> length [''/a/x.txt'', ''/b/x.txt''] > 50
           \<or> (\<exists>p \<in> set [''/a/x.txt'', ''/b/x.txt''].
                 \<not> isfile (example_env (status_server 200)) p)
           \<or> \<not> distinct (map basename [''/a/x.txt'', ''/b/x.txt''])"
    by blast
  from d invalid_paths_no_network_call [OF h, of example_archive empty_world]
  show ?thesis by blast
qed

section \<open>Queries of the browser\<close>

text \<open>
  A POST adds exactly one request to those sent, whatever the server answers.
\<close>

lemma astr_request_POST_sent:
  "sent (snd (astr_request E c ''POST'' u params w)) = sent w @ [HttpPost u (headers c) params]"
  by (simp add: astr_request_def transport_def raise_for_status_def
           split: sum.splits)

lemma send_post_sent:
  "sent (snd (send_post E c uri params w))
     = sent w @ [HttpPost (url c @ quote uri) (headers c) params]"
  by (simp add: send_post_def astr_request_POST_sent)

lemma mongodb_query_sent:
  "sent (snd (get_archives_by_mongodb_query E b query w))
     = sent w @ [HttpPost (url (browser_client b) @ ''archives'') (headers (browser_client b)) query]"
proof -
  have q: "quote ''archives'' = ''archives''"
    by (simp add: quote_def quote_safe_def)
  obtain r w' where s: "send_post E (browser_client b) ''archives'' query w = (r, w')"
    by (metis prod.exhaust)
  with send_post_sent [of E "browser_client b" "''archives''" query w]
  have "sent w' = sent w @ [HttpPost (url (browser_client b) @ ''archives'')
                              (headers (browser_client b)) query]"
    by (simp add: q)
  with s show ?thesis
    by (simp add: get_archives_by_mongodb_query_def split: sum.splits)
qed

lemma args_query_no_descriptors:
  "args_query author1 date1 category1 PNone
     = Inr ((if author1 \<noteq> PNone then [(PStr ''author'', author1)] else [])
            @ (if date1 \<noteq> PNone then [(PStr ''date'', date1)] else [])
            @ (if category1 \<noteq> PNone then [(PStr ''category'', category1)] else []))"
  by (simp add: args_query_def)

lemma args_query_descriptors:
  "args_query author1 date1 category1 (PDict kvs)
     = Inr ((if author1 \<noteq> PNone then [(PStr ''author'', author1)] else [])
            @ (if date1 \<noteq> PNone then [(PStr ''date'', date1)] else [])
            @ (if category1 \<noteq> PNone then [(PStr ''category'', category1)] else [])
            @ [(PStr ''$and'', PList (map elem_match kvs))])"
  by (simp add: args_query_def items_def)

text \<open>
  C6. \<open>Browser.get_archives_by_args\<close> sends one POST to \<open>archives\<close> whose body holds
  exactly the fields given among author, date and category, in that order, and, when a
  descriptors dict is given, a \<open>$and\<close> list with one entry
  \<open>{"descriptors": {"$elemMatch": {"name": key, "value": value}}}\<close> per pair of the
  dict, in the dict's order. For \<open>descriptors={"robot_type": "NAO"}\<close> the query is the
  \<open>$and\<close> list with that single entry.
\<close>

theorem get_archives_by_args_query:
  "(let top = (if author1 \<noteq> PNone then [(PStr ''author'', author1)] else [])
              @ (if date1 \<noteq> PNone then [(PStr ''date'', date1)] else [])
              @ (if category1 \<noteq> PNone then [(PStr ''category'', category1)] else []);
        clauses = map (\<lambda>kv. PDict [(PStr ''descriptors'',
                                      PDict [(PStr ''$elemMatch'',
                                              PDict [(PStr ''name'', fst kv),
                                                     (PStr ''value'', snd kv)])])]) kvs;
        post = HttpPost (url (browser_client b) @ ''archives'') (headers (browser_client b))
    in args_query author1 date1 category1 PNone = Inr top
       \<and> args_query author1 date1 category1 (PDict kvs) = Inr (top @ [(PStr ''$and'', PList clauses)])
       \<and> sent (snd (get_archives_by_args E b author1 date1 category1 PNone w))
           = sent w @ [post (PDict top)]
       \<and> sent (snd (get_archives_by_args E b author1 date1 category1 (PDict kvs) w))
           = sent w @ [post (PDict (top @ [(PStr ''$and'', PList clauses)]))])
   \<and> args_query PNone PNone PNone (PDict [(PStr ''robot_type'', PStr ''NAO'')])
       = Inr [(PStr ''$and'',
               PList [PDict [(PStr ''descriptors'',
                              PDict [(PStr ''$elemMatch'',
                                      PDict [(PStr ''name'', PStr ''robot_type''),
                                             (PStr ''value'', PStr ''NAO'')])])]])]"
proof -
  have e: "elem_match = (\<lambda>kv. PDict [(PStr ''descriptors'',
                                      PDict [(PStr ''$elemMatch'',
                                              PDict [(PStr ''name'', fst kv),
                                                     (PStr ''value'', snd kv)])])])"
    by (rule ext) (simp add: elem_match_def)
  show ?thesis
    unfolding Let_def get_archives_by_args_def args_query_no_descriptors args_query_descriptors
    by (simp add: mongodb_query_sent e)
qed

section \<open>Updating an archive\<close>

text \<open>
  \<open>Archive.update\<close> assigns to no attribute, and its request body holds the fields given.
\<close>

lemma update_keeps_archive: "fst (snd (update E a date1 comments1 descriptors1 w)) = a"
  by (simp add: update_def split: sum.splits prod.splits)

lemma update_body_no_descriptors:
  "update_body date1 comments1 PNone
     = Inr ((if date1 \<noteq> PNone then [(PStr ''date'', date1)] else [])
            @ (if comments1 \<noteq> PNone then [(PStr ''comments'', comments1)] else []))"
  by (simp add: update_body_def)

lemma update_body_descriptors:
  "update_body date1 comments1 (PDict kvs)
     = Inr ((if date1 \<noteq> PNone then [(PStr ''date'', date1)] else [])
            @ (if comments1 \<noteq> PNone then [(PStr ''comments'', comments1)] else [])
            @ [(PStr ''descriptors'', PList (map name_value kvs))])"
  by (simp add: update_body_def items_def)

lemma update_sent:
  assumes "id' a = PStr i" and "update_body date1 comments1 descriptors1 = Inr body"
  shows "sent (snd (snd (update E a date1 comments1 descriptors1 w)))
           = sent w @ [HttpPost (url (client a) @ quote (''archives/id/'' @ i))
                         (headers (client a)) (PDict body)]"
proof -
  have u: "str_plus ''archives/id/'' (id' a) = Inr (''archives/id/'' @ i)"
    by (simp add: str_plus_def assms(1))
  obtain r w' where s: "send_post E (client a) (''archives/id/'' @ i) (PDict body) w = (r, w')"
    by (metis prod.exhaust)
  with send_post_sent [of E "client a" "''archives/id/'' @ i" "PDict body" w]
  have "sent w' = sent w @ [HttpPost (url (client a) @ quote (''archives/id/'' @ i))
                              (headers (client a)) (PDict body)]"
    by simp
  with s u assms(2) show ?thesis
    by (simp add: update_def split: sum.splits)
qed

text \<open>
  C7. For a persisted archive (its \<open>id_\<close> is a string), \<open>update()\<close> without arguments
  is one POST to \<open>archives/id/<id>\<close> with the empty dict as body, and it returns the
  archive as it was. With arguments, the archive is unchanged as well, and the body holds
  exactly the fields given among date and comments, in that order, followed, when a
  descriptors dict is given, by the list of its \<open>{"name": key, "value": value}\<close> entries.
\<close>

theorem update_sends_only_given_fields:
  assumes "id' a = PStr i"
  shows "(let post = HttpPost (url (client a) @ quote (''archives/id/'' @ i)) (headers (client a));
              given = (if date1 \<noteq> PNone then [(PStr ''date'', date1)] else [])
                      @ (if comments1 \<noteq> PNone then [(PStr ''comments'', comments1)] else [])
          in update E a PNone PNone PNone w
               = (map_sum id (\<lambda>r. ()) (fst (send_post E (client a) (''archives/id/'' @ i) (PDict []) w)),
                  a, snd (send_post E (client a) (''archives/id/'' @ i) (PDict []) w))
             \<and> sent (snd (snd (update E a PNone PNone PNone w))) = sent w @ [post (PDict [])]
             \<and> fst (snd (update E a date1 comments1 descriptors1 w)) = a
             \<and> sent (snd (snd (update E a date1 comments1 PNone w))) = sent w @ [post (PDict given)]
             \<and> sent (snd (snd (update E a date1 comments1 (PDict kvs) w)))
                 = sent w @ [post (PDict (given @
                     [(PStr ''descriptors'',
                       PList (map (\<lambda>kv. PDict [(PStr ''name'', fst kv), (PStr ''value'', snd kv)])
                                  kvs))]))])"
proof -
  have nv: "name_value = (\<lambda>kv. PDict [(PStr ''name'', fst kv), (PStr ''value'', snd kv)])"
    by (rule ext) (simp add: name_value_def)
  have u: "str_plus ''archives/id/'' (id' a) = Inr (''archives/id/'' @ i)"
    by (simp add: str_plus_def assms)
  have b0: "update_body PNone PNone PNone = Inr []"
    by (simp add: update_body_def)
  have 1: "update E a PNone PNone PNone w
               = (map_sum id (\<lambda>r. ()) (fst (send_post E (client a) (''archives/id/'' @ i) (PDict []) w)),
                  a, snd (send_post E (client a) (''archives/id/'' @ i) (PDict []) w))"
    by (simp add: update_def u b0 split: sum.splits prod.splits)
  note 2 = update_sent [OF assms b0, of E w]
  note 3 = update_keeps_archive [of E a date1 comments1 descriptors1 w]
  note 4 = update_sent [OF assms update_body_no_descriptors, of E date1 comments1 w]
  note 5 = update_sent [OF assms update_body_descriptors, of E date1 comments1 kvs w]
  from 1 2 3 4 5 show ?thesis
    unfolding Let_def nv by simp
qed

theorem update_sends_only_given_fields_witness:
  "update (example_env (example_server 200)) (example_archive\<lparr>id' := PStr ''5b29''\<rparr>)
          PNone PNone PNone empty_world
     = (Inr (), example_archive\<lparr>id' := PStr ''5b29''\<rparr>,
        empty_world\<lparr>sent := [HttpPost ''http://h/api/archives/id/5b29''
                                 (headers example_client) (PDict [])]\<rparr>)"
proof -
  let ?E = "example_env (example_server 200)"
  let ?a = "example_archive\<lparr>id' := PStr ''5b29''\<rparr>"
  have i: "id' ?a = PStr ''5b29''" by simp
  have q: "quote ''archives/id/5b29'' = ''archives/id/5b29''"
    by (simp add: quote_def quote_safe_def)
  have c: "client ?a = example_client" by (simp add: example_archive_def)
  have s: "send_post ?E example_client ''archives/id/5b29'' (PDict []) empty_world
             = (Inr (PDict [(PStr ''name'', PStr ''Success''),
                            (PStr ''archive'', PDict [(PStr ''_id'', PStr ''5b29'')])]),
                empty_world\<lparr>sent := [HttpPost ''http://h/api/archives/id/5b29''
                                         (headers example_client) (PDict [])]\<rparr>)"
    by (simp add: send_post_def q astr_request_def transport_def example_env_def
                  example_server_def raise_for_status_def response_json_def empty_world_def
                  example_client_def)
  from update_sends_only_given_fields [OF i, of PNone PNone ?E empty_world PNone "[]"]
  have "update ?E ?a PNone PNone PNone empty_world
          = (map_sum id (\<lambda>r. ()) (fst (send_post ?E (client ?a) (''archives/id/'' @ ''5b29'') (PDict []) empty_world)),
             ?a, snd (send_post ?E (client ?a) (''archives/id/'' @ ''5b29'') (PDict []) empty_world))"
    unfolding Let_def by (rule conjunct1)
  then show ?thesis by (simp add: c s)
qed

section \<open>From a JSON object to an archive and back\<close>

text \<open>
  Storing under a key the dict does not hold appends the pair, so folding descriptors
  with distinct string names into an empty dict keeps every pair, in order.
\<close>

lemma dict_set_new_key:
  "\<forall>k' \<in> fst ` set d. \<not> py_eq k' k \<Longrightarrow> dict_set k v d = d @ [(k, v)]"
  by (induction d) auto

lemma fold_descriptors_distinct:
  assumes "map (\<lambda>x. getitem x ''name'') ds = map (\<lambda>nv. Inr (PStr (fst nv))) nvs"
      and "map (\<lambda>x. getitem x ''value'') ds = map (\<lambda>nv. Inr (snd nv)) nvs"
      and "distinct (map fst nvs)"
      and "\<forall>k' \<in> fst ` set d. \<forall>n \<in> fst ` set nvs. \<not> py_eq k' (PStr n)"
  shows "fold_descriptors ds d = Inr (d @ map (\<lambda>nv. (PStr (fst nv), snd nv)) nvs)"
  using assms
proof (induction ds arbitrary: nvs d)
  case Nil
  then show ?case by simp
next
  case (Cons x ds)
  from Cons.prems(1) obtain nv rest where nvs: "nvs = nv # rest"
    by (cases nvs) auto
  from Cons.prems(1,2) nvs have x: "getitem x ''name'' = Inr (PStr (fst nv))"
      "getitem x ''value'' = Inr (snd nv)"
    and m: "map (\<lambda>x. getitem x ''name'') ds = map (\<lambda>nv. Inr (PStr (fst nv))) rest"
      "map (\<lambda>x. getitem x ''value'') ds = map (\<lambda>nv. Inr (snd nv)) rest"
    by auto
  from Cons.prems(4) nvs have fresh: "\<forall>k' \<in> fst ` set d. \<not> py_eq k' (PStr (fst nv))"
    by auto
  have s: "dict_set (PStr (fst nv)) (snd nv) d = d @ [(PStr (fst nv), snd nv)]"
    by (rule dict_set_new_key [OF fresh])
  from Cons.prems(3) nvs have dr: "distinct (map fst rest)" and nin: "fst nv \<notin> fst ` set rest"
    by auto
  have fresh': "\<forall>k' \<in> fst ` set (d @ [(PStr (fst nv), snd nv)]).
                  \<forall>n \<in> fst ` set rest. \<not> py_eq k' (PStr n)"
    using Cons.prems(4) nvs nin by auto
  from Cons.IH [OF m dr fresh'] x s nvs show ?case by simp
qed

lemma getitem_Inr_dict: "getitem j k = Inr v \<Longrightarrow> \<exists>kvs. j = PDict kvs"
  by (cases j) auto

lemma has_key_getitem:
  "has_key (PDict kvs) k \<Longrightarrow> \<exists>v. getitem (PDict kvs) k = Inr v"
  by (auto simp: has_key_def)

lemma not_has_key_getitem:
  "\<not> has_key (PDict kvs) k \<Longrightarrow> getitem (PDict kvs) k = Inl (KeyError (PStr k))"
  by (auto simp: has_key_def)

text \<open>
  C5. Let a JSON object have the fields \<open>_id\<close>, \<open>author\<close>, \<open>date\<close>, \<open>category\<close> and a
  \<open>descriptors\<close> array whose entries carry a string \<open>name\<close> and a \<open>value\<close>, the names
  distinct. Then \<open>Browser._json_to_archive\<close> builds an archive, and
  \<open>Archive._object_to_dict\<close> of that archive is the dict holding the id (under the key
  \<open>id_\<close>), the date, the category, the author, the comments (\<open>None\<close> when the object has
  no \<open>comments\<close> field) and the list of every descriptor's \<open>{"name", "value"}\<close> pair, in
  the order of the array.
\<close>

theorem archive_json_roundtrip:
  assumes "getitem j ''_id'' = Inr i" and "getitem j ''author'' = Inr au"
      and "getitem j ''date'' = Inr d" and "getitem j ''category'' = Inr cat"
      and "getitem j ''descriptors'' = Inr (PList ds)"
      and "map (\<lambda>x. getitem x ''name'') ds = map (\<lambda>nv. Inr (PStr (fst nv))) nvs"
      and "map (\<lambda>x. getitem x ''value'') ds = map (\<lambda>nv. Inr (snd nv)) nvs"
      and "distinct (map fst nvs)"
  shows "\<exists>a a'. json_to_archive E b j = Inr a
           \<and> object_to_dict a
               = Inr ([(PStr ''id_'', i), (PStr ''date'', d), (PStr ''category'', cat),
                       (PStr ''author'', au),
                       (PStr ''comments'', (case getitem j ''comments'' of
                                              Inr c \<Rightarrow> c | Inl e \<Rightarrow> PNone)),
                       (PStr ''descriptors'',
                        PList (map (\<lambda>nv. PDict [(PStr ''name'', PStr (fst nv)),
                                                 (PStr ''value'', snd nv)]) nvs))], a')"
proof -
  from assms(1) obtain kvs where j: "j = PDict kvs"
    using getitem_Inr_dict by blast
  have f: "fold_descriptors ds [] = Inr (map (\<lambda>nv. (PStr (fst nv), snd nv)) nvs)"
    using fold_descriptors_distinct [OF assms(6,7,8), of "[]"] by simp
  show ?thesis
  proof (cases "has_key j ''comments''")
    case True
    with j obtain c where c: "getitem j ''comments'' = Inr c"
      using has_key_getitem by blast
    with True assms(1-5) f show ?thesis
      by (simp add: json_to_archive_def py_iter_def Archive_def object_to_dict_def items_def
                    Let_def name_value_def comp_def)
  next
    case False
    with j have c: "getitem j ''comments'' = Inl (KeyError (PStr ''comments''))"
      using not_has_key_getitem by blast
    with False assms(1-5) f show ?thesis
      by (simp add: json_to_archive_def py_iter_def Archive_def object_to_dict_def items_def
                    Let_def name_value_def comp_def)
  qed
qed


theorem archive_json_roundtrip_witness:
  "\<exists>a a'. json_to_archive (example_env (status_server 200)) \<lparr>browser_client = example_client\<rparr>
              (PDict [(PStr ''_id'', PStr ''5b29''), (PStr ''author'', PStr ''John DOE''),
                      (PStr ''date'', PStr ''2018-05-30''), (PStr ''category'', PStr ''MY_CAT''),
                      (PStr ''descriptors'',
                       PList [PDict [(PStr ''name'', PStr ''robot_type''), (PStr ''value'', PStr ''NAO'')],
                              PDict [(PStr ''name'', PStr ''robot_version''), (PStr ''value'', PStr ''V6'')]])])
             = Inr a
         \<and> object_to_dict a
             = Inr ([(PStr ''id_'', PStr ''5b29''), (PStr ''date'', PStr ''2018-05-30''),
                     (PStr ''category'', PStr ''MY_CAT''), (PStr ''author'', PStr ''John DOE''),
                     (PStr ''comments'', PNone),
                     (PStr ''descriptors'',
                      PList [PDict [(PStr ''name'', PStr ''robot_type''), (PStr ''value'', PStr ''NAO'')],
                             PDict [(PStr ''name'', PStr ''robot_version''), (PStr ''value'', PStr ''V6'')]])],
                    a')"
proof -
  let ?ds = "[PDict [(PStr ''name'', PStr ''robot_type''), (PStr ''value'', PStr ''NAO'')],
              PDict [(PStr ''name'', PStr ''robot_version''), (PStr ''value'', PStr ''V6'')]]"
  let ?j = "PDict [(PStr ''_id'', PStr ''5b29''), (PStr ''author'', PStr ''John DOE''),
                   (PStr ''date'', PStr ''2018-05-30''), (PStr ''category'', PStr ''MY_CAT''),
                   (PStr ''descriptors'', PList ?ds)]"
  let ?nvs = "[(''robot_type'', PStr ''NAO''), (''robot_version'', PStr ''V6'')]"
  have 1: "getitem ?j ''_id'' = Inr (PStr ''5b29'')" by simp
  have 2: "getitem ?j ''author'' = Inr (PStr ''John DOE'')" by simp
  have 3: "getitem ?j ''date'' = Inr (PStr ''2018-05-30'')" by simp
  have 4: "getitem ?j ''category'' = Inr (PStr ''MY_CAT'')" by simp
  have 5: "getitem ?j ''descriptors'' = Inr (PList ?ds)" by simp
  have 6: "map (\<lambda>x. getitem x ''name'') ?ds = map (\<lambda>nv. Inr (PStr (fst nv))) ?nvs" by simp
  have 7: "map (\<lambda>x. getitem x ''value'') ?ds = map (\<lambda>nv. Inr (snd nv)) ?nvs" by simp
  have 8: "distinct (map fst ?nvs)" by simp
  have 9: "getitem ?j ''comments'' = Inl (KeyError (PStr ''comments''))" by simp
  from archive_json_roundtrip [OF 1 2 3 4 5 6 7 8, of "example_env (status_server 200)"
                                 "\<lparr>browser_client = example_client\<rparr>"]
  show ?thesis unfolding 9 by simp
qed

section \<open>Uploading an archive\<close>

text \<open>
  \<open>Archive.upload\<close> assigns \<open>id_\<close> in its last statement only: every exit by an exception
  leaves the attribute as it was, and a normal return has gone through the creation
  request and the transfer.
\<close>

lemma object_to_dict_frame:
  "object_to_dict a = Inr (data, a1) \<Longrightarrow> a1 = a\<lparr>astr_items := data\<rparr>"
  by (auto simp: object_to_dict_def Let_def split: sum.splits)

lemma upload_failure_keeps_id:
  "fst (upload E a ps w) = Inl e \<Longrightarrow> id' (fst (snd (upload E a ps w))) = id' a"
  by (auto simp: upload_def Let_def dest!: object_to_dict_frame
           split: sum.splits prod.splits if_splits)

lemma upload_success_sets_id:
  "fst (upload E a ps w) = Inr u \<Longrightarrow>
     \<exists>data w1 res w2 arch txt.
        send_post E (client a) ''archives/add'' (PDict data) w1 = (Inr res, w2)
      \<and> getitem res ''archive'' = Inr arch
      \<and> getitem arch ''_id'' = Inr (id' (fst (snd (upload E a ps w))))
      \<and> AstrClient_upload E (client a) ''upload'' ps (id' (fst (snd (upload E a ps w)))) w2
           = (Inr txt, snd (snd (upload E a ps w)))"
  by (auto simp: upload_def Let_def dest!: object_to_dict_frame
           split: sum.splits prod.splits if_splits) blast

text \<open>
  The upload of \<open>example_archive\<close> with one file, step by step, against a server that
  accepts the creation and answers the transfer with status 500 or 200.
\<close>

lemma example_get_username:
  "get_username (example_env (example_server n)) example_client empty_world
     = (Inr (PStr ''John DOE''),
        empty_world\<lparr>sent := [HttpGet ''http://h/api/user/email/e%40x'' (headers example_client) PNone]\<rparr>)"
  by (simp add: get_username_def send_get_def astr_request_def transport_def example_env_def
                example_server_def raise_for_status_def response_json_def empty_world_def
                example_client_def quote_def quote_safe_def hexdigit_def)

lemma example_object_to_dict:
  "object_to_dict example_archive
     = Inr ([(PStr ''id_'', PNone), (PStr ''date'', PStr ''2018-05-30''),
             (PStr ''category'', PStr ''MY_CAT''), (PStr ''author'', PNone),
             (PStr ''comments'', PNone),
             (PStr ''descriptors'',
              PList [PDict [(PStr ''name'', PStr ''robot_type''), (PStr ''value'', PStr ''NAO'')]])],
            example_archive\<lparr>astr_items :=
              [(PStr ''id_'', PNone), (PStr ''date'', PStr ''2018-05-30''),
               (PStr ''category'', PStr ''MY_CAT''), (PStr ''author'', PNone),
               (PStr ''comments'', PNone),
               (PStr ''descriptors'',
                PList [PDict [(PStr ''name'', PStr ''robot_type''), (PStr ''value'', PStr ''NAO'')]])]\<rparr>)"
  by (simp add: object_to_dict_def example_archive_def items_def name_value_def Let_def)


lemma example_creation:
  "send_post (example_env (example_server n)) example_client ''archives/add'' params
      (empty_world\<lparr>sent := log\<rparr>)
     = (Inr (PDict [(PStr ''name'', PStr ''Success''),
                    (PStr ''archive'', PDict [(PStr ''_id'', PStr ''5b29'')])]),
        empty_world\<lparr>sent := log @ [HttpPost ''http://h/api/archives/add''
                                       (headers example_client) params]\<rparr>)"
  by (simp add: send_post_def astr_request_def transport_def example_env_def
                example_server_def raise_for_status_def response_json_def empty_world_def
                example_client_def quote_def quote_safe_def)

lemma example_transfer_fails:
  "AstrClient_upload (example_env (example_server 500)) example_client ''upload''
      [''/tmp/f.txt''] (PStr ''5b29'') (empty_world\<lparr>sent := log\<rparr>)
     = (Inl (HTTPError \<lparr>status_code = 500, content = ''done'', json_body = None\<rparr>),
        empty_world\<lparr>sent := log @ [HttpPostFiles ''http://h/api/upload'' (PStr ''5b29'')
                                       [''f.txt''] [(''files'', 0)] (''e@x'', ''t'')],
                     handles := [False]\<rparr>)"
  by (simp add: AstrClient_upload_def open_rb_def close_file_def transport_def example_env_def
                example_server_def raise_for_status_def empty_world_def basename_def
                example_client_def quote_def quote_safe_def)

lemma example_transfer_succeeds:
  "AstrClient_upload (example_env (example_server 200)) example_client ''upload''
      [''/tmp/f.txt''] (PStr ''5b29'') (empty_world\<lparr>sent := log\<rparr>)
     = (Inr ''done'',
        empty_world\<lparr>sent := log @ [HttpPostFiles ''http://h/api/upload'' (PStr ''5b29'')
                                       [''f.txt''] [(''files'', 0)] (''e@x'', ''t'')],
                     handles := [False]\<rparr>)"
  by (simp add: AstrClient_upload_def open_rb_def close_file_def transport_def example_env_def
                example_server_def raise_for_status_def empty_world_def basename_def
                example_client_def quote_def quote_safe_def)

lemma example_validate:
  "validate_paths (example_env srv) [''/tmp/f.txt''] = Inr [''f.txt'']"
  by (simp add: validate_paths_def MAX_FILE_NUMBER_def example_env_def basename_def)

lemma example_upload_transfer_fails:
  "upload (example_env (example_server 500)) example_archive [''/tmp/f.txt''] empty_world
     = (Inl (HTTPError \<lparr>status_code = 500, content = ''done'', json_body = None\<rparr>),
        example_archive\<lparr>astr_items :=
               [(PStr ''id_'', PNone), (PStr ''date'', PStr ''2018-05-30''),
                (PStr ''category'', PStr ''MY_CAT''), (PStr ''author'', PStr ''John DOE''),
                (PStr ''comments'', PNone),
                (PStr ''descriptors'',
                 PList [PDict [(PStr ''name'', PStr ''robot_type''),
                               (PStr ''value'', PStr ''NAO'')]])]\<rparr>,
        empty_world\<lparr>sent :=
                [HttpGet ''http://h/api/user/email/e%40x'' (headers example_client) PNone,
                 HttpPost ''http://h/api/archives/add'' (headers example_client)
                   (PDict [(PStr ''id_'', PNone), (PStr ''date'', PStr ''2018-05-30''),
                (PStr ''category'', PStr ''MY_CAT''), (PStr ''author'', PStr ''John DOE''),
                (PStr ''comments'', PNone),
                (PStr ''descriptors'',
                 PList [PDict [(PStr ''name'', PStr ''robot_type''),
                               (PStr ''value'', PStr ''NAO'')]])]),
                 HttpPostFiles ''http://h/api/upload'' (PStr ''5b29'') [''f.txt'']
                   [(''files'', 0)] (''e@x'', ''t'')],
           handles := [False]\<rparr>)"
proof -
  have c: "client example_archive = example_client" by (simp add: example_archive_def)
  show ?thesis
    by (simp add: upload_def example_validate example_object_to_dict c example_get_username
                  example_creation example_transfer_fails Let_def)
qed

lemma example_upload_succeeds:
  "upload (example_env (example_server 200)) example_archive [''/tmp/f.txt''] empty_world
     = (Inr (),
        example_archive\<lparr>astr_items :=
               [(PStr ''id_'', PNone), (PStr ''date'', PStr ''2018-05-30''),
                (PStr ''category'', PStr ''MY_CAT''), (PStr ''author'', PStr ''John DOE''),
                (PStr ''comments'', PNone),
                (PStr ''descriptors'',
                 PList [PDict [(PStr ''name'', PStr ''robot_type''),
                               (PStr ''value'', PStr ''NAO'')]])],
           id' := PStr ''5b29''\<rparr>,
        empty_world\<lparr>sent :=
                [HttpGet ''http://h/api/user/email/e%40x'' (headers example_client) PNone,
                 HttpPost ''http://h/api/archives/add'' (headers example_client)
                   (PDict [(PStr ''id_'', PNone), (PStr ''date'', PStr ''2018-05-30''),
                (PStr ''category'', PStr ''MY_CAT''), (PStr ''author'', PStr ''John DOE''),
                (PStr ''comments'', PNone),
                (PStr ''descriptors'',
                 PList [PDict [(PStr ''name'', PStr ''robot_type''),
                               (PStr ''value'', PStr ''NAO'')]])]),
                 HttpPostFiles ''http://h/api/upload'' (PStr ''5b29'') [''f.txt'']
                   [(''files'', 0)] (''e@x'', ''t'')],
           handles := [False]\<rparr>)"
proof -
  have c: "client example_archive = example_client" by (simp add: example_archive_def)
  show ?thesis
    by (simp add: upload_def example_validate example_object_to_dict c example_get_username
                  example_creation example_transfer_succeeds Let_def)
qed

text \<open>
  C4, as the claim states it, fails: the archive is not Persisted before the transfer.
  The server accepts the creation and hands out the id \<open>5b29\<close>, the transfer is sent
  under that id and answered with status 500, \<open>upload\<close> raises HTTPError, and \<open>id_\<close> of
  the archive is still \<open>None\<close>.
\<close>

theorem upload_transfer_failure_leaves_id_unset:
  "fst (upload (example_env (example_server 500)) example_archive [''/tmp/f.txt''] empty_world)
     = Inl (HTTPError \<lparr>status_code = 500, content = ''done'', json_body = None\<rparr>)
   \<and> last (sent (snd (snd (upload (example_env (example_server 500)) example_archive
                               [''/tmp/f.txt''] empty_world))))
     = HttpPostFiles ''http://h/api/upload'' (PStr ''5b29'') [''f.txt''] [(''files'', 0)]
         (''e@x'', ''t'')
   \<and> id' (fst (snd (upload (example_env (example_server 500)) example_archive
                          [''/tmp/f.txt''] empty_world)))
     = PNone"
  unfolding example_upload_transfer_fails by (simp add: example_archive_def)

text \<open>
  C4, amended. \<open>Archive.upload\<close> assigns the new id only after the file transfer has
  returned: whenever \<open>upload\<close> raises, the file transfer included, \<open>id_\<close> is what it was
  before the call; and when \<open>upload\<close> returns, \<open>id_\<close> is the \<open>_id\<close> of the \<open>archive\<close>
  field of the creation response, and the transfer under that id has returned normally.
\<close>

theorem upload_assigns_id_after_transfer:
  "(\<forall>e. fst (upload E a file_paths w) = Inl e
        \<longrightarrow> id' (fst (snd (upload E a file_paths w))) = id' a)
   \<and> (fst (upload E a file_paths w) = Inr ()
        \<longrightarrow> (\<exists>data w1 res w2 arch txt.
               send_post E (client a) ''archives/add'' (PDict data) w1 = (Inr res, w2)
             \<and> getitem res ''archive'' = Inr arch
             \<and> getitem arch ''_id'' = Inr (id' (fst (snd (upload E a file_paths w))))
             \<and> AstrClient_upload E (client a) ''upload'' file_paths
                  (id' (fst (snd (upload E a file_paths w)))) w2
                 = (Inr txt, snd (snd (upload E a file_paths w)))))"
proof (intro conjI allI impI)
  fix e
  assume "fst (upload E a file_paths w) = Inl e"
  then show "id' (fst (snd (upload E a file_paths w))) = id' a"
    by (rule upload_failure_keeps_id)
next
  assume "fst (upload E a file_paths w) = Inr ()"
  then show "\<exists>data w1 res w2 arch txt.
               send_post E (client a) ''archives/add'' (PDict data) w1 = (Inr res, w2)
             \<and> getitem res ''archive'' = Inr arch
             \<and> getitem arch ''_id'' = Inr (id' (fst (snd (upload E a file_paths w))))
             \<and> AstrClient_upload E (client a) ''upload'' file_paths
                  (id' (fst (snd (upload E a file_paths w)))) w2
                 = (Inr txt, snd (snd (upload E a file_paths w)))"
    by (rule upload_success_sets_id)
qed

theorem upload_assigns_id_after_transfer_witness:
  "id' (fst (snd (upload (example_env (example_server 500)) example_archive [''/tmp/f.txt'']
                    empty_world)))
     = id' example_archive
   \<and> (\<exists>data w1 res w2 arch txt.
         send_post (example_env (example_server 200)) (client example_archive) ''archives/add''
           (PDict data) w1 = (Inr res, w2)
       \<and> getitem res ''archive'' = Inr arch
       \<and> getitem arch ''_id'' = Inr (PStr ''5b29'')
       \<and> AstrClient_upload (example_env (example_server 200)) (client example_archive) ''upload''
            [''/tmp/f.txt''] (PStr ''5b29'') w2
           = (Inr txt, snd (snd (upload (example_env (example_server 200)) example_archive
                                   [''/tmp/f.txt''] empty_world))))"
proof -
  let ?E5 = "example_env (example_server 500)"
  let ?E2 = "example_env (example_server 200)"
  have f: "fst (upload ?E5 example_archive [''/tmp/f.txt''] empty_world)
             = Inl (HTTPError \<lparr>status_code = 500, content = ''done'', json_body = None\<rparr>)"
    by (simp add: example_upload_transfer_fails)
  have s: "fst (upload ?E2 example_archive [''/tmp/f.txt''] empty_world) = Inr ()"
    by (simp add: example_upload_succeeds)
  have i: "id' (fst (snd (upload ?E2 example_archive [''/tmp/f.txt''] empty_world))) = PStr ''5b29''"
    by (simp add: example_upload_succeeds)
  note T5 = upload_assigns_id_after_transfer [of ?E5 example_archive "[''/tmp/f.txt'']" empty_world]
  note T2 = upload_assigns_id_after_transfer [of ?E2 example_archive "[''/tmp/f.txt'']" empty_world]
  from conjunct1 [OF T5, rule_format, OF f]
  have a: "id' (fst (snd (upload ?E5 example_archive [''/tmp/f.txt''] empty_world)))
             = id' example_archive" .
  from conjunct2 [OF T2, rule_format, OF s]
  have b: "\<exists>data w1 res w2 arch txt.
         send_post ?E2 (client example_archive) ''archives/add'' (PDict data) w1 = (Inr res, w2)
       \<and> getitem res ''archive'' = Inr arch
       \<and> getitem arch ''_id'' = Inr (PStr ''5b29'')
       \<and> AstrClient_upload ?E2 (client example_archive) ''upload''
            [''/tmp/f.txt''] (PStr ''5b29'') w2
           = (Inr txt, snd (snd (upload ?E2 example_archive [''/tmp/f.txt''] empty_world)))"
    unfolding i .
  from a b show ?thesis by (rule conjI)
qed

section \<open>What the internal dict of an archive reports\<close>

text \<open>
  \<open>_astr_items\<close> is built once, by \<open>__init__\<close>. Afterwards only two statements store
  into it: \<open>data["descriptors"] = descriptors\<close> of \<open>_object_to_dict\<close> and
  \<open>data["author"] = ...\<close> of \<open>upload\<close>, both through the name \<open>data\<close> bound to the same
  dict. So the entries for \<open>id_\<close>, \<open>date\<close>, \<open>category\<close> and \<open>comments\<close> never change, whatever
  happens to the attributes.
\<close>

lemma object_to_dict_items:
  assumes "astr_items a = [(PStr ''id_'', i), (PStr ''date'', d), (PStr ''category'', c),
                           (PStr ''author'', x), (PStr ''comments'', m), (PStr ''descriptors'', y)]"
      and "object_to_dict a = Inr (data, a')"
  shows "\<exists>kvs. descriptors a = PDict kvs
           \<and> data = [(PStr ''id_'', i), (PStr ''date'', d), (PStr ''category'', c),
                      (PStr ''author'', x), (PStr ''comments'', m),
                      (PStr ''descriptors'', PList (map name_value kvs))]
           \<and> a' = a\<lparr>astr_items := data\<rparr>"
  using assms
  by (cases "descriptors a") (auto simp: object_to_dict_def items_def Let_def)

lemma upload_archive_cases:
  "fst (snd (upload E a ps w)) = a
   \<or> (\<exists>data a1. object_to_dict a = Inr (data, a1)
        \<and> (fst (snd (upload E a ps w)) = a1
            \<or> (\<exists>username. fst (snd (upload E a ps w))
                               = a1\<lparr>astr_items := dict_set (PStr ''author'') username data\<rparr>)
            \<or> (\<exists>username new_id. fst (snd (upload E a ps w))
                               = a1\<lparr>astr_items := dict_set (PStr ''author'') username data,
                                    id' := new_id\<rparr>)))"
  by (auto simp: upload_def Let_def split: sum.splits prod.splits if_splits)

lemma replace_zip_keeps_archive: "fst (snd (replace_zip E a ps w)) = a"
  by (simp add: replace_zip_def split: sum.splits prod.splits)

lemma delete_keeps_archive: "fst (snd (delete E a w)) = a"
  by (simp add: delete_def split: sum.splits prod.splits)

lemma perform_items:
  assumes "astr_items a = [(PStr ''id_'', i), (PStr ''date'', d), (PStr ''category'', c),
          (PStr ''author'', x), (PStr ''comments'', m), (PStr ''descriptors'', y)]"
  shows "\<exists>x' y'. astr_items (fst (perform E op (a, w))) = [(PStr ''id_'', i), (PStr ''date'', d), (PStr ''category'', c),
          (PStr ''author'', x'), (PStr ''comments'', m), (PStr ''descriptors'', y')]
           \<and> (\<not> is_upload op \<longrightarrow> x' = x)"
proof (cases op)
  case (Assign attr v)
  with assms show ?thesis by (cases attr) simp_all
next
  case Call_object_to_dict
  show ?thesis
  proof (cases "object_to_dict a")
    case (Inl e)
    with assms Call_object_to_dict show ?thesis by simp
  next
    case (Inr r)
    obtain data a' where r: "r = (data, a')" by (cases r)
    from object_to_dict_items [OF assms Inr [unfolded r]] Inr r Call_object_to_dict
    show ?thesis by auto
  qed
next
  case (Call_update date1 comments1 descriptors1)
  with assms update_keeps_archive [of E a date1 comments1 descriptors1 w]
  show ?thesis by simp
next
  case (Call_upload ps)
  from upload_archive_cases [of E a ps w]
  have "\<exists>x' y'. astr_items (fst (snd (upload E a ps w))) = [(PStr ''id_'', i), (PStr ''date'', d), (PStr ''category'', c),
          (PStr ''author'', x'), (PStr ''comments'', m), (PStr ''descriptors'', y')]"
  proof (elim disjE exE conjE)
    assume "fst (snd (upload E a ps w)) = a"
    with assms show ?thesis by simp
  next
    fix data a1
    assume o: "object_to_dict a = Inr (data, a1)" and "fst (snd (upload E a ps w)) = a1"
    with object_to_dict_items [OF assms o] show ?thesis by auto
  next
    fix data a1 username
    assume o: "object_to_dict a = Inr (data, a1)"
       and "fst (snd (upload E a ps w)) = a1\<lparr>astr_items := dict_set (PStr ''author'') username data\<rparr>"
    with object_to_dict_items [OF assms o] show ?thesis by auto
  next
    fix data a1 username new_id
    assume o: "object_to_dict a = Inr (data, a1)"
       and "fst (snd (upload E a ps w))
              = a1\<lparr>astr_items := dict_set (PStr ''author'') username data, id' := new_id\<rparr>"
    with object_to_dict_items [OF assms o] show ?thesis by auto
  qed
  with Call_upload show ?thesis by simp
next
  case (Call_replace_zip ps)
  with assms replace_zip_keeps_archive [of E a ps w] show ?thesis by simp
next
  case Call_delete
  with assms delete_keeps_archive [of E a w] show ?thesis by simp
qed

lemma history_items:
  assumes "astr_items a = [(PStr ''id_'', i), (PStr ''date'', d), (PStr ''category'', c),
          (PStr ''author'', x), (PStr ''comments'', m), (PStr ''descriptors'', y)]"
  shows "\<exists>x' y'. astr_items (fst (fold (perform E) ops (a, w))) = [(PStr ''id_'', i), (PStr ''date'', d), (PStr ''category'', c),
          (PStr ''author'', x'), (PStr ''comments'', m), (PStr ''descriptors'', y')]
           \<and> (\<not> list_ex is_upload ops \<longrightarrow> x' = x)"
  using assms
proof (induction ops arbitrary: a w x y)
  case Nil
  then show ?case by simp
next
  case (Cons op ops)
  obtain a1 w1 where p: "perform E op (a, w) = (a1, w1)" by (cases "perform E op (a, w)")
  from perform_items [OF Cons.prems, of E op w] p
  obtain x1 y1 where s1: "astr_items a1 = [(PStr ''id_'', i), (PStr ''date'', d), (PStr ''category'', c),
          (PStr ''author'', x1), (PStr ''comments'', m), (PStr ''descriptors'', y1)]"
    and u1: "\<not> is_upload op \<longrightarrow> x1 = x"
    by auto
  from Cons.IH [OF s1, of w1]
  obtain x2 y2 where s2: "astr_items (fst (fold (perform E) ops (a1, w1))) = [(PStr ''id_'', i), (PStr ''date'', d), (PStr ''category'', c),
          (PStr ''author'', x2), (PStr ''comments'', m), (PStr ''descriptors'', y2)]"
    and u2: "\<not> list_ex is_upload ops \<longrightarrow> x2 = x1"
    by blast
  from s2 u1 u2 p show ?case by auto
qed

lemma example_archive_constructed:
  "Archive E (PStr ''2018-05-30'') (PStr ''MY_CAT'') (PDict [(PStr ''robot_type'', PStr ''NAO'')])
     PNone PNone PNone (Some example_client) = Inr example_archive"
  by (simp add: Archive_def example_archive_def)

lemma no_upload_in: "\<forall>file_paths. Call_upload file_paths \<notin> set ops \<Longrightarrow> \<not> list_ex is_upload ops"
proof (induction ops)
  case Nil
  show ?case by simp
next
  case (Cons op ops)
  then show ?case by (cases op) auto
qed

text \<open>
  C10, as the claim states it, fails for the author: \<open>upload\<close> stores the user name of
  the client under \<open>author\<close> in the very dict \<open>_object_to_dict\<close> returns. The archive is
  constructed with no author; after a successful upload, \<open>_object_to_dict\<close> reports the
  author \<open>John DOE\<close> (and still the id \<open>None\<close>).
\<close>

theorem upload_overwrites_reported_author:
  "Archive (example_env (example_server 200)) (PStr ''2018-05-30'') (PStr ''MY_CAT'')
     (PDict [(PStr ''robot_type'', PStr ''NAO'')]) PNone PNone PNone (Some example_client)
     = Inr example_archive
   \<and> map_sum id fst
         (object_to_dict (fst (snd (upload (example_env (example_server 200)) example_archive
                                      [''/tmp/f.txt''] empty_world))))
     = Inr [(PStr ''id_'', PNone), (PStr ''date'', PStr ''2018-05-30''),
              (PStr ''category'', PStr ''MY_CAT''), (PStr ''author'', PStr ''John DOE''),
              (PStr ''comments'', PNone),
              (PStr ''descriptors'',
               PList [PDict [(PStr ''name'', PStr ''robot_type''),
                             (PStr ''value'', PStr ''NAO'')]])]"
  unfolding example_upload_succeeds example_archive_constructed
  by (simp add: object_to_dict_def items_def name_value_def Let_def example_archive_def)

text \<open>
  C10, amended. Take an archive as its constructor returned it and let any sequence of
  attribute assignments and method calls act on it. Whenever \<open>_object_to_dict\<close> then
  returns, its dict reports \<open>id_\<close>, \<open>date\<close>, \<open>category\<close> and \<open>comments\<close> as the constructor's
  arguments, the author as the constructor's argument provided \<open>upload\<close> has not been
  called, and the descriptors as the entries of the current \<open>descriptors\<close> attribute. In
  particular the id reported after a successful upload is the one given at construction.
  The dict \<open>repr\<close> prints, \<open>_astr_items\<close> as it stands, holds the same four values
  of the construction.
\<close>

theorem object_to_dict_reports_construction_values:
  assumes "Archive E date0 category0 descriptors0 author0 comments0 id0 astrclient0 = Inr a0"
      and "object_to_dict (fst (fold (perform E) ops (a0, w0))) = Inr (data, a')"
  shows "dict_get data (PStr ''id_'') = Some id0
       \<and> dict_get data (PStr ''date'') = Some date0
       \<and> dict_get data (PStr ''category'') = Some category0
       \<and> dict_get data (PStr ''comments'') = Some comments0
       \<and> ((\<forall>file_paths. Call_upload file_paths \<notin> set ops)
            \<longrightarrow> dict_get data (PStr ''author'') = Some author0)
       \<and> (\<exists>kvs. descriptors (fst (fold (perform E) ops (a0, w0))) = PDict kvs
              \<and> dict_get data (PStr ''descriptors'')
                  = Some (PList (map (\<lambda>kv. PDict [(PStr ''name'', fst kv),
                                                   (PStr ''value'', snd kv)]) kvs)))
       \<and> dict_get (astr_items (fst (fold (perform E) ops (a0, w0)))) (PStr ''id_'') = Some id0
       \<and> dict_get (astr_items (fst (fold (perform E) ops (a0, w0)))) (PStr ''date'') = Some date0
       \<and> dict_get (astr_items (fst (fold (perform E) ops (a0, w0)))) (PStr ''category'')
           = Some category0
       \<and> dict_get (astr_items (fst (fold (perform E) ops (a0, w0)))) (PStr ''comments'')
           = Some comments0"
proof -
  let ?a = "fst (fold (perform E) ops (a0, w0))"
  from assms(1) have s0: "astr_items a0
      = [(PStr ''id_'', id0), (PStr ''date'', date0), (PStr ''category'', category0),
         (PStr ''author'', author0), (PStr ''comments'', comments0),
         (PStr ''descriptors'', descriptors0)]"
    by (auto simp: Archive_def split: sum.splits)
  from history_items [OF s0, of E ops w0]
  obtain x y where s: "astr_items ?a
      = [(PStr ''id_'', id0), (PStr ''date'', date0), (PStr ''category'', category0),
         (PStr ''author'', x), (PStr ''comments'', comments0), (PStr ''descriptors'', y)]"
    and u: "\<not> list_ex is_upload ops \<longrightarrow> x = author0"
    by blast
  from object_to_dict_items [OF s assms(2)]
  obtain kvs where k: "descriptors ?a = PDict kvs"
    and d: "data = [(PStr ''id_'', id0), (PStr ''date'', date0), (PStr ''category'', category0),
                    (PStr ''author'', x), (PStr ''comments'', comments0),
                    (PStr ''descriptors'', PList (map name_value kvs))]"
    by blast
  have nv: "name_value = (\<lambda>kv. PDict [(PStr ''name'', fst kv), (PStr ''value'', snd kv)])"
    by (rule ext) (simp add: name_value_def)
  have 1: "dict_get data (PStr ''id_'') = Some id0" by (simp add: d)
  have 2: "dict_get data (PStr ''date'') = Some date0" by (simp add: d)
  have 3: "dict_get data (PStr ''category'') = Some category0" by (simp add: d)
  have 4: "dict_get data (PStr ''comments'') = Some comments0" by (simp add: d)
  have 5: "(\<forall>file_paths. Call_upload file_paths \<notin> set ops)
            \<longrightarrow> dict_get data (PStr ''author'') = Some author0"
    using u no_upload_in [of ops] by (auto simp: d)
  have 6: "\<exists>kvs. descriptors ?a = PDict kvs
              \<and> dict_get data (PStr ''descriptors'')
                  = Some (PList (map (\<lambda>kv. PDict [(PStr ''name'', fst kv),
                                                   (PStr ''value'', snd kv)]) kvs))"
    using k by (simp add: d nv)
  have 7: "dict_get (astr_items ?a) (PStr ''id_'') = Some id0"
          "dict_get (astr_items ?a) (PStr ''date'') = Some date0"
          "dict_get (astr_items ?a) (PStr ''category'') = Some category0"
          "dict_get (astr_items ?a) (PStr ''comments'') = Some comments0"
    by (simp_all add: s)
  from 1 2 3 4 5 6 7 show ?thesis by blast
qed

theorem object_to_dict_reports_construction_values_witness:
  "id' (fst (fold (perform (example_env (example_server 200)))
                  [Call_upload [''/tmp/f.txt''], Assign Attr_date (PStr ''2019-01-01'')]
                  (example_archive, empty_world)))
     = PStr ''5b29''
   \<and> date (fst (fold (perform (example_env (example_server 200)))
                  [Call_upload [''/tmp/f.txt''], Assign Attr_date (PStr ''2019-01-01'')]
                  (example_archive, empty_world)))
     = PStr ''2019-01-01''
   \<and> (\<exists>data a'.
         object_to_dict (fst (fold (perform (example_env (example_server 200)))
                  [Call_upload [''/tmp/f.txt''], Assign Attr_date (PStr ''2019-01-01'')]
                  (example_archive, empty_world)))
           = Inr (data, a')
       \<and> dict_get data (PStr ''id_'') = Some PNone
       \<and> dict_get data (PStr ''date'') = Some (PStr ''2018-05-30'')
       \<and> dict_get data (PStr ''category'') = Some (PStr ''MY_CAT'')
       \<and> dict_get data (PStr ''comments'') = Some PNone)"
proof -
  let ?E = "example_env (example_server 200)"
  let ?ops = "[Call_upload [''/tmp/f.txt''], Assign Attr_date (PStr ''2019-01-01'')]"
  let ?a = "example_archive\<lparr>astr_items := [(PStr ''id_'', PNone), (PStr ''date'', PStr ''2018-05-30''),
              (PStr ''category'', PStr ''MY_CAT''), (PStr ''author'', PStr ''John DOE''),
              (PStr ''comments'', PNone),
              (PStr ''descriptors'',
               PList [PDict [(PStr ''name'', PStr ''robot_type''),
                             (PStr ''value'', PStr ''NAO'')]])],
              id' := PStr ''5b29'', date := PStr ''2019-01-01''\<rparr>"
  have f: "fst (fold (perform ?E) ?ops (example_archive, empty_world)) = ?a"
    by (simp add: example_upload_succeeds)
  have o: "object_to_dict ?a = Inr ([(PStr ''id_'', PNone), (PStr ''date'', PStr ''2018-05-30''),
              (PStr ''category'', PStr ''MY_CAT''), (PStr ''author'', PStr ''John DOE''),
              (PStr ''comments'', PNone),
              (PStr ''descriptors'',
               PList [PDict [(PStr ''name'', PStr ''robot_type''),
                             (PStr ''value'', PStr ''NAO'')]])], ?a)"
    by (simp add: object_to_dict_def items_def name_value_def Let_def example_archive_def)
  have i: "id' ?a = PStr ''5b29''" and dd: "date ?a = PStr ''2019-01-01''" by simp_all
  from object_to_dict_reports_construction_values
         [OF example_archive_constructed [of ?E] o [folded f]]
  have "dict_get ([(PStr ''id_'', PNone), (PStr ''date'', PStr ''2018-05-30''),
              (PStr ''category'', PStr ''MY_CAT''), (PStr ''author'', PStr ''John DOE''),
              (PStr ''comments'', PNone),
              (PStr ''descriptors'',
               PList [PDict [(PStr ''name'', PStr ''robot_type''),
                             (PStr ''value'', PStr ''NAO'')]])]) (PStr ''id_'') = Some PNone
      \<and> dict_get ([(PStr ''id_'', PNone), (PStr ''date'', PStr ''2018-05-30''),
              (PStr ''category'', PStr ''MY_CAT''), (PStr ''author'', PStr ''John DOE''),
              (PStr ''comments'', PNone),
              (PStr ''descriptors'',
               PList [PDict [(PStr ''name'', PStr ''robot_type''),
                             (PStr ''value'', PStr ''NAO'')]])]) (PStr ''date'') = Some (PStr ''2018-05-30'')
      \<and> dict_get ([(PStr ''id_'', PNone), (PStr ''date'', PStr ''2018-05-30''),
              (PStr ''category'', PStr ''MY_CAT''), (PStr ''author'', PStr ''John DOE''),
              (PStr ''comments'', PNone),
              (PStr ''descriptors'',
               PList [PDict [(PStr ''name'', PStr ''robot_type''),
                             (PStr ''value'', PStr ''NAO'')]])]) (PStr ''category'') = Some (PStr ''MY_CAT'')
      \<and> dict_get ([(PStr ''id_'', PNone), (PStr ''date'', PStr ''2018-05-30''),
              (PStr ''category'', PStr ''MY_CAT''), (PStr ''author'', PStr ''John DOE''),
              (PStr ''comments'', PNone),
              (PStr ''descriptors'',
               PList [PDict [(PStr ''name'', PStr ''robot_type''),
                             (PStr ''value'', PStr ''NAO'')]])]) (PStr ''comments'') = Some PNone"
    by blast
  with o i dd show ?thesis unfolding f by blast
qed

end
